theory Spec2Isabelle
  imports Main
begin

section \<open>League-Analyzer: the URL builders of utility.py\<close>

text \<open>
  Python strings are modelled as \<^typ>\<open>string\<close>. Every string the program compares
  against (region codes, tier names, division codes) is ASCII; \<open>str.lower\<close> is
  modelled on the ASCII letters and leaves every other character as it is.

  Exceptions are values. \<open>ValueError\<close> and \<open>KeyError\<close> carry the message or key
  they are raised with, \<open>SqliteError\<close> the text of a \<open>sqlite3.Error\<close>;
  \<open>SystemExit\<close> is what \<open>exit()\<close> raises.
\<close>

datatype error =
    ValueError string
  | KeyError string
  | IndexError
  | TypeError
  | JSONDecodeError
  | SqliteError string
  | OverflowError
  | RecursionError
  | SystemExit

subsection \<open>Global tables\<close>

definition region_dict :: "(string \<times> string) list" where
  "region_dict =
    [(''NA'', ''https://na1.api.riotgames.com''),
     (''EUW'', ''https://euw1.api.riotgames.com''),
     (''EUN'', ''https://eun1.api.riotgames.com''),
     (''BR'', ''https://br1.api.riotgames.com''),
     (''JP'', ''https://jp1.api.riotgames.com''),
     (''KR'', ''https://kr.api.riotgames.com''),
     (''LA'', ''https://la1.api.riotgames.com''),
     (''OC'', ''https://oc1.api.riotgames.com''),
     (''TR'', ''https://tr1.api.riotgames.com''),
     (''RU'', ''https://ru.api.riotgames.com''),
     (''PH'', ''https://ph2.api.riotgames.com''),
     (''SG'', ''https://sg2.api.riotgames.com''),
     (''TH'', ''https://th2.api.riotgames.com''),
     (''TW'', ''https://tw2.api.riotgames.com''),
     (''VN'', ''https://vn2.api.riotgames.com'')]"

definition division_dict :: "(string \<times> string) list" where
  "division_dict =
    [(''1'', ''I''), (''2'', ''II''), (''3'', ''III''), (''4'', ''IV''), ('''', '''')]"

definition tier_set :: "string list" where
  "tier_set =
    [''iron'', ''bronze'', ''silver'', ''gold'', ''platinum'', ''diamond'',
     ''master'', ''grandmaster'', ''challenger'']"

subsection \<open>str.lower\<close>

definition lower_char :: "char \<Rightarrow> char" where
  "lower_char c =
    (case map_of (zip ''ABCDEFGHIJKLMNOPQRSTUVWXYZ'' ''abcdefghijklmnopqrstuvwxyz'') c of
       Some d \<Rightarrow> d
     | None \<Rightarrow> c)"

definition str_lower :: "string \<Rightarrow> string" where
  "str_lower s = map lower_char s"

subsection \<open>region_to_url, tier_to_url, create_tier_url\<close>

definition region_to_url :: "string \<Rightarrow> error + string" where
  "region_to_url region =
    (case map_of region_dict region of
       Some u \<Rightarrow> Inr u
     | None \<Rightarrow> Inl (ValueError ''The region is invalid''))"

text \<open>
  \<open>tier_to_url(tier, division="", page="1")\<close>: the checks in the order of the source,
  division first, then tier, then the top-league conflict.
\<close>

definition tier_to_url :: "string \<Rightarrow> string \<Rightarrow> string \<Rightarrow> error + string" where
  "tier_to_url tier0 division0 page =
    (let tier = str_lower tier0;
         is_top_league = (tier = ''master'' \<or> tier = ''grandmaster'' \<or> tier = ''challenger'')
     in case map_of division_dict division0 of
          None \<Rightarrow> Inl (ValueError ''Division is invalid'')
        | Some division \<Rightarrow>
            if tier \<notin> set tier_set then Inl (ValueError ''Tier is invalid'')
            else if is_top_league \<and> division \<noteq> '''' then
              Inl (ValueError (''You cannot have tier '' @ tier @ '' with a division''))
            else if is_top_league then
              Inr (''/lol/league/v4/'' @ tier @ ''leagues/by-queue/RANKED_SOLO_5x5'')
            else
              Inr (''/lol/league/v4/entries/RANKED_SOLO_5x5/'' @ tier @ ''/'' @ division
                   @ ''?page='' @ page))"

text \<open>
  \<open>create_tier_url(region="NA", tier="Master")\<close> calls \<open>tier_to_url(tier)\<close> with the
  default division and page, and turns a \<open>ValueError\<close> of either builder into \<open>exit()\<close>.
\<close>

definition create_tier_url :: "string \<Rightarrow> string \<Rightarrow> error + string" where
  "create_tier_url region tier =
    (case region_to_url region of
       Inl (ValueError v) \<Rightarrow> Inl SystemExit
     | Inl e \<Rightarrow> Inl e
     | Inr region_url \<Rightarrow>
        (case tier_to_url tier '''' ''1'' of
           Inl (ValueError v) \<Rightarrow> Inl SystemExit
         | Inl e \<Rightarrow> Inl e
         | Inr tier_url \<Rightarrow> Inr (region_url @ tier_url)))"

section \<open>JSON values and the Python built-ins the program applies to them\<close>

text \<open>
  What \<open>response.json()\<close> returns. A JSON object is its list of key/value pairs in
  key order (keys distinct, as the parser leaves them); numbers are integers.
\<close>

datatype json =
    JNull
  | JBool bool
  | JNum int
  | JStr string
  | JList "json list"
  | JObj "(string \<times> json) list"

text \<open>
  \<open>v[k]\<close> with a string key: \<open>KeyError\<close> on a dict without the key, \<open>TypeError\<close> on
  every value that is not a dict. \<open>for x in v\<close>: list elements, dict keys, the characters
  of a string; \<open>TypeError\<close> on anything else.
\<close>

definition py_getitem :: "json \<Rightarrow> string \<Rightarrow> error + json" where
  "py_getitem v k =
    (case v of
       JObj kvs \<Rightarrow> (case map_of kvs k of Some x \<Rightarrow> Inr x | None \<Rightarrow> Inl (KeyError k))
     | _ \<Rightarrow> Inl TypeError)"

definition py_iter :: "json \<Rightarrow> error + json list" where
  "py_iter v =
    (case v of
       JList xs \<Rightarrow> Inr xs
     | JObj kvs \<Rightarrow> Inr (map (\<lambda>kv. JStr (fst kv)) kvs)
     | JStr s \<Rightarrow> Inr (map (\<lambda>c. JStr [c]) s)
     | _ \<Rightarrow> Inl TypeError)"

text \<open>
  \<open>str(v)\<close>, as an f-string formats a value: a string is itself, any other value its
  \<open>repr\<close>. In \<open>repr\<close> a character is a code point up to U+00FF (a header value is
  Latin-1 text); the ones that are not printable are escaped.
\<close>

definition backslash :: char where
  "backslash = CHR 0x5C"

definition hex_digit :: "nat \<Rightarrow> char" where
  "hex_digit n = ''0123456789abcdef'' ! (n mod 16)"

definition escape_char :: "char \<Rightarrow> char \<Rightarrow> string" where
  "escape_char q c =
    (if c = backslash \<or> c = q then [backslash, c]
     else if c = CHR 0x09 then [backslash, CHR ''t'']
     else if c = CHR 0x0A then [backslash, CHR ''n'']
     else if c = CHR 0x0D then [backslash, CHR ''r'']
     else if (of_char c :: nat) < 32 \<or> (127 \<le> (of_char c :: nat) \<and> (of_char c :: nat) \<le> 160)
             \<or> (of_char c :: nat) = 173 then
       [backslash, CHR ''x'', hex_digit (of_char c div 16), hex_digit (of_char c)]
     else [c])"

definition repr_str :: "string \<Rightarrow> string" where
  "repr_str s =
    (let q = (if CHR 0x27 \<in> set s \<and> CHR 0x22 \<notin> set s then CHR 0x22 else CHR 0x27)
     in [q] @ concat (map (escape_char q) s) @ [q])"

fun show_nat :: "nat \<Rightarrow> string" where
  "show_nat n =
    (if n < 10 then [''0123456789'' ! n]
     else show_nat (n div 10) @ [''0123456789'' ! (n mod 10)])"

definition show_int :: "int \<Rightarrow> string" where
  "show_int i = (if i < 0 then ''-'' @ show_nat (nat (- i)) else show_nat (nat i))"

fun join :: "string \<Rightarrow> string list \<Rightarrow> string" where
  "join sep [] = []"
| "join sep [x] = x"
| "join sep (x # y # zs) = x @ sep @ join sep (y # zs)"

fun py_repr :: "json \<Rightarrow> string" where
  "py_repr JNull = ''None''"
| "py_repr (JBool b) = (if b then ''True'' else ''False'')"
| "py_repr (JNum n) = show_int n"
| "py_repr (JStr s) = repr_str s"
| "py_repr (JList xs) = ''['' @ join '', '' (map py_repr xs) @ '']''"
| "py_repr (JObj kvs) =
     ''{'' @ join '', '' (map (\<lambda>kv. repr_str (fst kv) @ '': '' @ py_repr (snd kv)) kvs) @ ''}''"

definition py_str :: "json \<Rightarrow> string" where
  "py_str v = (case v of JStr s \<Rightarrow> s | _ \<Rightarrow> py_repr v)"

text \<open>
  \<open>int(s)\<close> on a string, as CPython 3.11 reads it: whitespace is skipped at both ends
  (blank, tab, line feed, vertical tab, form feed, carriage return and, in text that is
  not ASCII, U+0085 and U+00A0), one sign is allowed, then come decimal digits with
  single underscores between digits; a number of more than 4300 digits is refused. The
  \<open>repr\<close> in the message of an invalid literal is cut at 200 characters.
  \<open>format_int n\<close> is \<open>str(n)\<close> as an f-string calls it, which refuses a number of more
  than 4300 digits as well.
\<close>

definition int_max_str_digits :: nat where
  "int_max_str_digits = 4300"

definition format_int :: "int \<Rightarrow> error + string" where
  "format_int n =
    (if int_max_str_digits < length (show_nat (nat \<bar>n\<bar>)) then
       Inl (ValueError (''Exceeds the limit (4300 digits) for integer string conversion; ''
                        @ ''use sys.set_int_max_str_digits() to increase the limit''))
     else Inr (show_int n))"

definition is_space :: "char \<Rightarrow> bool" where
  "is_space c \<longleftrightarrow>
     c \<in> set [CHR '' '', CHR 0x09, CHR 0x0A, CHR 0x0B, CHR 0x0C, CHR 0x0D, CHR 0x85, CHR 0xA0]"

definition digit_val :: "char \<Rightarrow> int option" where
  "digit_val c = map_of (zip ''0123456789'' [0, 1, 2, 3, 4, 5, 6, 7, 8, 9]) c"

definition is_digit :: "char \<Rightarrow> bool" where
  "is_digit c \<longleftrightarrow> digit_val c \<noteq> None"

fun digits_ok :: "bool \<Rightarrow> string \<Rightarrow> bool" where
  "digits_ok after_digit [] = after_digit"
| "digits_ok after_digit (c # cs) =
    (if c = CHR ''_'' then after_digit \<and> digits_ok False cs else digits_ok True cs)"

fun digits_value :: "int \<Rightarrow> string \<Rightarrow> int" where
  "digits_value acc [] = acc"
| "digits_value acc (c # cs) =
    (case digit_val c of
       Some d \<Rightarrow> digits_value (10 * acc + d) cs
     | None \<Rightarrow> digits_value acc cs)"

definition py_int :: "string \<Rightarrow> error + int" where
  "py_int s =
    (let invalid = Inl (ValueError (''invalid literal for int() with base 10: ''
                                    @ take 200 (repr_str s)));
         s1 = dropWhile is_space s;
         (negative, s2) =
           (case s1 of
              c # cs \<Rightarrow>
                if c = CHR ''+'' then (False, cs)
                else if c = CHR ''-'' then (True, cs)
                else (False, s1)
            | [] \<Rightarrow> (False, s1));
         body = takeWhile (\<lambda>c. is_digit c \<or> c = CHR ''_'') s2;
         rest = dropWhile (\<lambda>c. is_digit c \<or> c = CHR ''_'') s2;
         digits = length (filter is_digit body)
     in if \<not> digits_ok False body then invalid
        else if int_max_str_digits < digits then
          Inl (ValueError (''Exceeds the limit (4300 digits) for integer string conversion: ''
                           @ ''value has '' @ show_nat digits
                           @ '' digits; use sys.set_int_max_str_digits() to increase the limit''))
        else if dropWhile is_space rest \<noteq> [] then invalid
        else Inr (if negative then - digits_value 0 body else digits_value 0 body))"

section \<open>The world of a run\<close>

text \<open>
  The program talks to two things it does not contain: Riot's HTTP API (through
  \<open>requests.get\<close>) and an SQLite file (through \<open>sqlite3\<close>). Their answers are inputs of
  the model, gathered in an environment: \<open>http_script E k\<close> is the outcome of the
  \<open>k\<close>-th GET the run issues (counted from 0), \<open>db_script E k\<close> the outcome of its \<open>k\<close>-th
  database call (\<open>None\<close> for success, \<open>Some msg\<close> for a \<open>sqlite3.Error\<close> with text
  \<open>msg\<close>). What the run does to them is recorded in the state: every GET with its URL
  and headers, every \<open>time.sleep\<close> with its duration, every database call, and the global
  \<open>REQUESTS_COUNTER\<close>.

  A response carries \<open>status_code\<close> and \<open>reason\<close>; \<open>headers r k\<close> is
  \<open>r.headers[k]\<close> (\<open>None\<close> where that raises \<open>KeyError\<close>) and \<open>json_body r\<close> is
  \<open>r.json()\<close> (\<open>None\<close> where the body is not JSON). A GET either raises
  \<open>requests.ConnectionError\<close> or returns a response.

  Messages printed to standard output are not part of the model; formatting the number
  in one of them is, since it can fail.
\<close>

record response =
  status_code :: int
  reason :: string
  headers :: "string \<Rightarrow> string option"
  json_body :: "json option"

datatype http_outcome = ConnectionError | Response response

record request =
  url :: string
  req_headers :: "(string \<times> string) list"

datatype db_op =
    Connect string
  | Cursor
  | Execute string
  | ExecuteMany string "json list list"
  | Commit
  | Close

record env =
  http_script :: "nat \<Rightarrow> http_outcome"
  db_script :: "nat \<Rightarrow> string option"

record state =
  requests :: "request list"
  sleeps :: "int list"
  db_log :: "db_op list"
  REQUESTS_COUNTER :: int

text \<open>
  The outcome of a call: a value, or an exception that escapes it. The state is returned
  with either.
\<close>

datatype 'a res = Return 'a | Raise error

type_synonym connection = string

subsection \<open>Effects\<close>

text \<open>
  \<open>time.sleep\<close> with an integer raises \<open>OverflowError\<close> when the duration does not fit
  64-bit nanoseconds and \<open>ValueError\<close> when it is negative.
\<close>

definition requests_get :: "env \<Rightarrow> string \<Rightarrow> (string \<times> string) list \<Rightarrow> state \<Rightarrow> http_outcome \<times> state" where
  "requests_get E u h s =
    (http_script E (length (requests s)), s\<lparr>requests := requests s @ [\<lparr>url = u, req_headers = h\<rparr>]\<rparr>)"

definition time_sleep :: "int \<Rightarrow> state \<Rightarrow> unit res \<times> state" where
  "time_sleep secs s =
    (if secs < - 9223372036 \<or> 9223372036 < secs then (Raise OverflowError, s)
     else if secs < 0 then (Raise (ValueError ''sleep length must be non-negative''), s)
     else (Return (), s\<lparr>sleeps := sleeps s @ [secs]\<rparr>))"

definition db_call :: "env \<Rightarrow> db_op \<Rightarrow> state \<Rightarrow> string option \<times> state" where
  "db_call E op s = (db_script E (length (db_log s)), s\<lparr>db_log := db_log s @ [op]\<rparr>)"

section \<open>Database operations\<close>

text \<open>
  \<open>create_connection\<close> turns a \<open>sqlite3.Error\<close> of \<open>sqlite3.connect\<close> into a
  \<open>ValueError\<close>; the connection it returns is represented by the path it was opened on.
\<close>

definition create_connection :: "env \<Rightarrow> string \<Rightarrow> state \<Rightarrow> connection res \<times> state" where
  "create_connection E path_to_db s =
    (case db_call E (Connect path_to_db) s of
       (Some e, s1) \<Rightarrow>
         (Raise (ValueError (''Error connecting to database :'' @ [CHR 0x0A] @ e)), s1)
     | (None, s1) \<Rightarrow> (Return path_to_db, s1))"

text \<open>
  \<open>create_summonerID_table\<close>: cursor, execute, commit, close; any exception ends in
  \<open>exit()\<close>.
\<close>

definition create_table_statement :: string where
  "create_table_statement =
     ''CREATE TABLE IF NOT EXISTS summonerID ('' @ [CHR 0x0A]
     @ replicate 36 (CHR '' '') @ ''puuid text PRIMARY KEY NOT NULL,'' @ [CHR 0x0A]
     @ replicate 36 (CHR '' '') @ ''summoner_id text NOT NULL,'' @ [CHR 0x0A]
     @ replicate 36 (CHR '' '') @ ''account_id text NOT NULL,'' @ [CHR 0x0A]
     @ replicate 36 (CHR '' '') @ ''summoner_name text NOT NULL,'' @ [CHR 0x0A]
     @ replicate 36 (CHR '' '') @ ''region text NOT NULL'' @ [CHR 0x0A]
     @ replicate 32 (CHR '' '') @ '');''"

definition create_summonerID_table :: "env \<Rightarrow> connection \<Rightarrow> state \<Rightarrow> string res \<times> state" where
  "create_summonerID_table E connection s =
    (case db_call E Cursor s of
       (Some e, s1) \<Rightarrow> (Raise SystemExit, s1)
     | (None, s1) \<Rightarrow>
    (case db_call E (Execute create_table_statement) s1 of
       (Some e, s2) \<Rightarrow> (Raise SystemExit, s2)
     | (None, s2) \<Rightarrow>
    (case db_call E Commit s2 of
       (Some e, s3) \<Rightarrow> (Raise SystemExit, s3)
     | (None, s3) \<Rightarrow>
    (case db_call E Close s3 of
       (Some e, s4) \<Rightarrow> (Raise SystemExit, s4)
     | (None, s4) \<Rightarrow> (Return ''summonerID'', s4)))))"

text \<open>
  \<open>insert_into_table\<close>: \<open>data[0]\<close> raises \<open>IndexError\<close> on an empty list;
  \<open>tmp[:-2]\<close> drops the last two characters. Only the connection and the
  \<open>executemany\<close> call are guarded by \<open>try\<close>.
\<close>

definition insert_into_table :: "env \<Rightarrow> string \<Rightarrow> string \<Rightarrow> json list list \<Rightarrow> state \<Rightarrow> unit res \<times> state" where
  "insert_into_table E path_to_db table_name data s =
    (case db_call E (Connect path_to_db) s of
       (Some e, s1) \<Rightarrow> (Raise SystemExit, s1)
     | (None, s1) \<Rightarrow>
    (case data of
       [] \<Rightarrow> (Raise IndexError, s1)
     | row0 # rest \<Rightarrow>
    (let tmp = concat (replicate (length row0) ''?, '');
         value_string = ''('' @ take (length tmp - 2) tmp @ '')''
     in
    (case db_call E Cursor s1 of
       (Some e, s2) \<Rightarrow> (Raise (SqliteError e), s2)
     | (None, s2) \<Rightarrow>
    (case db_call E (ExecuteMany (''INSERT INTO '' @ table_name @ '' VALUES'' @ value_string) data) s2 of
       (Some e, s3) \<Rightarrow>
         (case db_call E Close s3 of
            (Some e', s4) \<Rightarrow> (Raise (SqliteError e'), s4)
          | (None, s4) \<Rightarrow> (Raise SystemExit, s4))
     | (None, s3) \<Rightarrow>
    (case db_call E Commit s3 of
       (Some e, s4) \<Rightarrow> (Raise (SqliteError e), s4)
     | (None, s4) \<Rightarrow>
    (case db_call E Close s4 of
       (Some e, s5) \<Rightarrow> (Raise (SqliteError e), s5)
     | (None, s5) \<Rightarrow> (Return (), s5))))))))"

section \<open>Fetching\<close>

definition create_puuid_url :: "json \<Rightarrow> string \<Rightarrow> error + string" where
  "create_puuid_url summonerId region =
    (case region_to_url region of
       Inl (ValueError v) \<Rightarrow> Inl SystemExit
     | Inl e \<Rightarrow> Inl e
     | Inr region_url \<Rightarrow> Inr (region_url @ ''/lol/summoner/v4/summoners/'' @ py_str summonerId))"

text \<open>
  \<open>get_id_summoner\<close> calls itself after a 429. Its first argument after the
  environment is the number of nested activations of \<open>get_id_summoner\<close> that still fit
  under the interpreter's recursion limit (fewer than 1000 under the default limit of
  1000): the activation that no longer fits raises \<open>RecursionError\<close>, placed here at its
  entry. Every lookup of the loop starts with the same number.
\<close>

fun get_id_summoner :: "env \<Rightarrow> nat \<Rightarrow> json \<Rightarrow> string \<Rightarrow> string \<Rightarrow> state \<Rightarrow> (json \<times> json) res \<times> state" where
  "get_id_summoner E 0 summonerId API_KEY region s = (Raise RecursionError, s)"
| "get_id_summoner E (Suc stack) summonerId API_KEY region s =
    (case create_puuid_url summonerId region of
       Inl e \<Rightarrow> (Raise e, s)
     | Inr request_url \<Rightarrow>
    (case requests_get E request_url [(''X-Riot-Token'', API_KEY)] s of
       (ConnectionError, s1) \<Rightarrow> (Raise SystemExit, s1)
     | (Response r, s1) \<Rightarrow>
        if status_code r = 429 then
          (case headers r ''Retry-After'' of
             None \<Rightarrow> (Raise (KeyError ''retry-after''), s1)
           | Some v \<Rightarrow>
          (case py_int v of
             Inl e \<Rightarrow> (Raise e, s1)
           | Inr n \<Rightarrow>
          (let wait_time = n + 1 in
          (case format_int wait_time of
             Inl e \<Rightarrow> (Raise e, s1)
           | Inr message \<Rightarrow>
          (case time_sleep wait_time s1 of
             (Raise e, s2) \<Rightarrow> (Raise e, s2)
           | (Return u, s2) \<Rightarrow> get_id_summoner E stack summonerId API_KEY region s2)))))
        else if status_code r \<noteq> 200 then (Raise SystemExit, s1)
        else
          (case json_body r of
             None \<Rightarrow> (Raise JSONDecodeError, s1)
           | Some response_dict \<Rightarrow>
          (let s2 = s1\<lparr>REQUESTS_COUNTER := REQUESTS_COUNTER s1 + 1\<rparr> in
          (case py_getitem response_dict ''puuid'' of
             Inl e \<Rightarrow> (Raise e, s2)
           | Inr puuid \<Rightarrow>
          (case py_getitem response_dict ''accountId'' of
             Inl e \<Rightarrow> (Raise e, s2)
           | Inr accountId \<Rightarrow> (Return (puuid, accountId), s2)))))))"

text \<open>
  The \<open>for account in accounts_data\<close> loop of \<open>create_summoner_to_id_table\<close>, with
  \<open>formatted_data\<close> as accumulator.
\<close>

fun resolve_accounts :: "env \<Rightarrow> nat \<Rightarrow> string \<Rightarrow> string \<Rightarrow> json list \<Rightarrow> json list list \<Rightarrow> state \<Rightarrow> json list list res \<times> state" where
  "resolve_accounts E stack API_KEY region [] formatted_data s = (Return formatted_data, s)"
| "resolve_accounts E stack API_KEY region (account # rest) formatted_data s =
    (case py_getitem account ''summonerId'' of
       Inl e \<Rightarrow> (Raise e, s)
     | Inr summonerId \<Rightarrow>
    (case py_getitem account ''summonerName'' of
       Inl e \<Rightarrow> (Raise e, s)
     | Inr summonerName \<Rightarrow>
    (case get_id_summoner E stack summonerId API_KEY region s of
       (Return (puuid, account_id), s1) \<Rightarrow>
         resolve_accounts E stack API_KEY region rest
           (formatted_data @ [[puuid, summonerId, account_id, summonerName, JStr region]]) s1
     | (Raise e, s1) \<Rightarrow> (Raise e, s1))))"

definition create_summoner_to_id_table :: "env \<Rightarrow> nat \<Rightarrow> string \<Rightarrow> string \<Rightarrow> string \<Rightarrow> string \<Rightarrow> state \<Rightarrow> unit res \<times> state" where
  "create_summoner_to_id_table E stack API_KEY PATH_DB region tier s =
    (case create_tier_url region tier of
       Inl e \<Rightarrow> (Raise e, s)
     | Inr request_url \<Rightarrow>
    (case requests_get E request_url [(''X-Riot-Token'', API_KEY)] s of
       (ConnectionError, s1) \<Rightarrow> (Raise SystemExit, s1)
     | (Response r, s1) \<Rightarrow>
        if status_code r \<noteq> 200 then (Raise SystemExit, s1)
        else
          (case json_body r of
             None \<Rightarrow> (Raise JSONDecodeError, s1)
           | Some response_dict \<Rightarrow>
          (case py_getitem response_dict ''entries'' of
             Inl e \<Rightarrow> (Raise e, s1)
           | Inr accounts_data \<Rightarrow>
          (case create_connection E PATH_DB s1 of
             (Raise (ValueError v), s2) \<Rightarrow> (Raise SystemExit, s2)
           | (Raise e, s2) \<Rightarrow> (Raise e, s2)
           | (Return connection, s2) \<Rightarrow>
          (case create_summonerID_table E connection s2 of
             (Raise e, s3) \<Rightarrow> (Raise e, s3)
           | (Return table_name, s3) \<Rightarrow>
          (case py_iter accounts_data of
             Inl e \<Rightarrow> (Raise e, s3)
           | Inr accounts \<Rightarrow>
          (case resolve_accounts E stack API_KEY region accounts [] s3 of
             (Raise e, s4) \<Rightarrow> (Raise e, s4)
           | (Return formatted_data, s4) \<Rightarrow>
               insert_into_table E PATH_DB table_name formatted_data s4))))))))"

section \<open>Notions used to state the properties\<close>

text \<open>
  \<open>successful_lookups E a b\<close> counts the GETs number \<open>a\<close> to \<open>b - 1\<close> that were answered
  with status 200 and a body that parses as JSON; \<open>status_200_lookups\<close> counts those
  answered with status 200.
\<close>

definition answered_200 :: "env \<Rightarrow> nat \<Rightarrow> bool" where
  "answered_200 E k =
    (case http_script E k of
       Response r \<Rightarrow> status_code r = 200 \<and> json_body r \<noteq> None
     | ConnectionError \<Rightarrow> False)"

definition status_200 :: "env \<Rightarrow> nat \<Rightarrow> bool" where
  "status_200 E k =
    (case http_script E k of
       Response r \<Rightarrow> status_code r = 200
     | ConnectionError \<Rightarrow> False)"

definition successful_lookups :: "env \<Rightarrow> nat \<Rightarrow> nat \<Rightarrow> nat" where
  "successful_lookups E a b = length (filter (answered_200 E) [a..<b])"

definition status_200_lookups :: "env \<Rightarrow> nat \<Rightarrow> nat \<Rightarrow> nat" where
  "status_200_lookups E a b = length (filter (status_200 E) [a..<b])"

text \<open>
  The request of a per-player lookup; the wait a 429 answer asks for (\<open>Retry-After\<close>
  read by \<open>int\<close>); the JSON body of a 200 answer; and the PlayerRecord
  \<open>(puuid, summonerId, accountId, summonerName, region)\<close> that a ladder entry and the
  body of its lookup determine.
\<close>

definition lookup_request :: "string \<Rightarrow> string \<Rightarrow> json \<Rightarrow> request" where
  "lookup_request base API_KEY summonerId =
     \<lparr>url = base @ ''/lol/summoner/v4/summoners/'' @ py_str summonerId,
      req_headers = [(''X-Riot-Token'', API_KEY)]\<rparr>"

definition retry_after :: "env \<Rightarrow> nat \<Rightarrow> int option" where
  "retry_after E k =
    (case http_script E k of
       Response r \<Rightarrow>
         if status_code r = 429 then
           (case headers r ''Retry-After'' of
              Some v \<Rightarrow> (case py_int v of Inr n \<Rightarrow> Some n | Inl e \<Rightarrow> None)
            | None \<Rightarrow> None)
         else None
     | ConnectionError \<Rightarrow> None)"

definition body_200 :: "env \<Rightarrow> nat \<Rightarrow> json option" where
  "body_200 E k =
    (case http_script E k of
       Response r \<Rightarrow> if status_code r = 200 then json_body r else None
     | ConnectionError \<Rightarrow> None)"

definition player_record :: "string \<Rightarrow> json \<Rightarrow> json \<Rightarrow> json list option" where
  "player_record region account body =
    (case (py_getitem body ''puuid'', py_getitem account ''summonerId'',
           py_getitem body ''accountId'', py_getitem account ''summonerName'') of
       (Inr puuid, Inr summonerId, Inr accountId, Inr summonerName) \<Rightarrow>
         Some [puuid, summonerId, accountId, summonerName, JStr region]
     | _ \<Rightarrow> None)"

definition summonerId_of :: "json \<Rightarrow> json" where
  "summonerId_of account = (case py_getitem account ''summonerId'' of Inr v \<Rightarrow> v | Inl e \<Rightarrow> JNull)"

section \<open>Test scenarios\<close>

text \<open>
  A fresh process, and scripted servers: a listing of three entries with three
  successful lookups; a server that answers 429 twice (\<open>Retry-After\<close> 2, then 0) before a
  200; a listing of one entry whose lookup is rate-limited once; a listing of one entry whose lookup is
  answered 200 with a body that is not JSON; a 200 listing without \<open>entries\<close>; and an
  empty listing. The database accepts every call.
\<close>

definition init_state :: state where
  "init_state = \<lparr>requests = [], sleeps = [], db_log = [], REQUESTS_COUNTER = 0\<rparr>"

definition ok_response :: "json \<Rightarrow> response" where
  "ok_response body =
     \<lparr>status_code = 200, reason = ''OK'', headers = (\<lambda>k. None), json_body = Some body\<rparr>"

definition rate_limited_response :: "string \<Rightarrow> response" where
  "rate_limited_response v =
     \<lparr>status_code = 429, reason = ''Too Many Requests'',
      headers = (\<lambda>k. if k = ''Retry-After'' then Some v else None), json_body = None\<rparr>"

definition ladder_entry :: "string \<Rightarrow> string \<Rightarrow> json" where
  "ladder_entry sid name =
     JObj [(''summonerId'', JStr sid), (''summonerName'', JStr name), (''leaguePoints'', JNum 100)]"

definition summoner_dto :: "string \<Rightarrow> string \<Rightarrow> json" where
  "summoner_dto puuid account = JObj [(''accountId'', JStr account), (''puuid'', JStr puuid)]"

definition three_entries :: "json list" where
  "three_entries = [ladder_entry ''s1'' ''Ann'', ladder_entry ''s2'' ''Bob'', ladder_entry ''s3'' ''Cy'']"

definition three_records :: "json list list" where
  "three_records =
     [[JStr ''p1'', JStr ''s1'', JStr ''a1'', JStr ''Ann'', JStr ''NA''],
      [JStr ''p2'', JStr ''s2'', JStr ''a2'', JStr ''Bob'', JStr ''NA''],
      [JStr ''p3'', JStr ''s3'', JStr ''a3'', JStr ''Cy'', JStr ''NA'']]"

definition three_entries_env :: env where
  "three_entries_env =
     \<lparr>http_script = (\<lambda>k.
        if k = 0 then
          Response (ok_response (JObj [(''tier'', JStr ''MASTER''), (''entries'', JList three_entries)]))
        else if k = 1 then Response (ok_response (summoner_dto ''p1'' ''a1''))
        else if k = 2 then Response (ok_response (summoner_dto ''p2'' ''a2''))
        else if k = 3 then Response (ok_response (summoner_dto ''p3'' ''a3''))
        else ConnectionError),
      db_script = (\<lambda>k. None)\<rparr>"

definition retry_env :: env where
  "retry_env =
     \<lparr>http_script = (\<lambda>k.
        if k = 0 then Response (rate_limited_response ''2'')
        else if k = 1 then Response (rate_limited_response ''0'')
        else if k = 2 then Response (ok_response (summoner_dto ''p1'' ''a1''))
        else ConnectionError),
      db_script = (\<lambda>k. None)\<rparr>"

definition rate_limited_lookup_env :: env where
  "rate_limited_lookup_env =
     \<lparr>http_script = (\<lambda>k.
        if k = 0 then Response (ok_response (JObj [(''entries'', JList [ladder_entry ''s1'' ''Ann''])]))
        else if k = 1 then Response (rate_limited_response ''2'')
        else if k = 2 then Response (ok_response (summoner_dto ''p1'' ''a1''))
        else ConnectionError),
      db_script = (\<lambda>k. None)\<rparr>"

definition non_json_lookup_env :: env where
  "non_json_lookup_env =
     \<lparr>http_script = (\<lambda>k.
        if k = 0 then Response (ok_response (JObj [(''entries'', JList [ladder_entry ''s1'' ''Ann''])]))
        else if k = 1 then
          Response \<lparr>status_code = 200, reason = ''OK'', headers = (\<lambda>k. None), json_body = None\<rparr>
        else ConnectionError),
      db_script = (\<lambda>k. None)\<rparr>"

definition no_entries_env :: env where
  "no_entries_env =
     \<lparr>http_script = (\<lambda>k. Response (ok_response (JObj [(''tier'', JStr ''MASTER'')]))),
      db_script = (\<lambda>k. None)\<rparr>"

definition empty_listing_env :: env where
  "empty_listing_env =
     \<lparr>http_script = (\<lambda>k. Response (ok_response (JObj [(''entries'', JList [])]))),
      db_script = (\<lambda>k. None)\<rparr>"

section \<open>Lemmas\<close>

subsection \<open>Evaluation\<close>

declare show_nat.simps [simp del]

lemma map_of_division_dict:
  "map_of division_dict d =
     (if d = ''1'' then Some ''I'' else if d = ''2'' then Some ''II''
      else if d = ''3'' then Some ''III'' else if d = ''4'' then Some ''IV''
      else if d = '''' then Some '''' else None)"
  by (simp add: division_dict_def)

lemmas url_defs = region_to_url_def region_dict_def tier_to_url_def Let_def map_of_division_dict
  str_lower_def lower_char_def tier_set_def create_tier_url_def

lemmas py_int_defs = py_int_def is_space_def digit_val_def is_digit_def int_max_str_digits_def
  Let_def

lemmas format_int_defs = format_int_def int_max_str_digits_def show_int_def show_nat.simps

lemma show_nat_length: "n < 10 ^ k \<Longrightarrow> 0 < k \<Longrightarrow> length (show_nat n) \<le> k"
proof (induction k arbitrary: n)
  case 0
  then show ?case by simp
next
  case (Suc k)
  show ?case
  proof (cases "n < 10")
    case True
    then show ?thesis by (simp add: show_nat.simps)
  next
    case False
    with Suc.prems have k: "0 < k" by (cases k) auto
    from Suc.prems have "n div 10 < 10 ^ k"
      by (simp add: div_less_iff_less_mult mult.commute)
    from Suc.IH [OF this k] False show ?thesis
      by (subst show_nat.simps) simp
  qed
qed

lemma format_int_small: "\<bar>n\<bar> \<le> 9223372037 \<Longrightarrow> format_int n = Inr (show_int n)"
proof -
  assume "\<bar>n\<bar> \<le> 9223372037"
  then have "nat \<bar>n\<bar> < 10 ^ 10" by simp
  then have "length (show_nat (nat \<bar>n\<bar>)) \<le> 10" by (rule show_nat_length) simp
  then show ?thesis by (simp add: format_int_def int_max_str_digits_def)
qed

subsection \<open>Counting answers\<close>

lemma successful_lookups_empty [simp]: "successful_lookups E a a = 0"
  by (simp add: successful_lookups_def)

lemma successful_lookups_none [simp]: "b \<le> a \<Longrightarrow> successful_lookups E a b = 0"
  by (simp add: successful_lookups_def)

lemma successful_lookups_first:
  "a < b \<Longrightarrow> successful_lookups E a b =
     (if answered_200 E a then 1 else 0) + successful_lookups E (Suc a) b"
  by (simp add: successful_lookups_def upt_conv_Cons)

lemma successful_lookups_split:
  "a \<le> b \<Longrightarrow> b \<le> c \<Longrightarrow>
     successful_lookups E a c = successful_lookups E a b + successful_lookups E b c"
proof -
  assume "a \<le> b" "b \<le> c"
  then have "[a..<c] = [a..<b] @ [b..<c]"
    by (metis le_Suc_ex upt_add_eq_append)
  then show ?thesis by (simp add: successful_lookups_def)
qed

lemma status_200_lookups_empty [simp]: "status_200_lookups E a a = 0"
  by (simp add: status_200_lookups_def)

lemma status_200_lookups_none [simp]: "b \<le> a \<Longrightarrow> status_200_lookups E a b = 0"
  by (simp add: status_200_lookups_def)

lemma status_200_lookups_first:
  "a < b \<Longrightarrow> status_200_lookups E a b =
     (if status_200 E a then 1 else 0) + status_200_lookups E (Suc a) b"
  by (simp add: status_200_lookups_def upt_conv_Cons)

lemma status_200_lookups_split:
  "a \<le> b \<Longrightarrow> b \<le> c \<Longrightarrow>
     status_200_lookups E a c = status_200_lookups E a b + status_200_lookups E b c"
proof -
  assume "a \<le> b" "b \<le> c"
  then have "[a..<c] = [a..<b] @ [b..<c]"
    by (metis le_Suc_ex upt_add_eq_append)
  then show ?thesis by (simp add: status_200_lookups_def)
qed

subsection \<open>Subscripting and the lookup URL\<close>

lemma py_getitem_error: "py_getitem v k = Inl e \<Longrightarrow> e = KeyError k \<or> e = TypeError"
  by (auto simp: py_getitem_def split: json.splits option.splits)

lemma create_puuid_url_ok:
  "region_to_url region = Inr base \<Longrightarrow>
     create_puuid_url sid region = Inr (base @ ''/lol/summoner/v4/summoners/'' @ py_str sid)"
  by (simp add: create_puuid_url_def)

subsection \<open>The database operations leave the request log and the counter alone\<close>

lemma create_connection_frame:
  "create_connection E p s = (r, s') \<Longrightarrow>
     requests s' = requests s \<and> REQUESTS_COUNTER s' = REQUESTS_COUNTER s
     \<and> r \<noteq> Raise JSONDecodeError"
  by (auto simp: create_connection_def db_call_def split: option.splits)

lemma create_summonerID_table_frame:
  "create_summonerID_table E c s = (r, s') \<Longrightarrow>
     requests s' = requests s \<and> REQUESTS_COUNTER s' = REQUESTS_COUNTER s
     \<and> r \<noteq> Raise JSONDecodeError"
  by (auto simp: create_summonerID_table_def db_call_def split: option.splits)

lemma insert_into_table_frame:
  "insert_into_table E p t data s = (r, s') \<Longrightarrow>
     requests s' = requests s \<and> REQUESTS_COUNTER s' = REQUESTS_COUNTER s
     \<and> r \<noteq> Raise JSONDecodeError"
  by (auto simp: insert_into_table_def db_call_def Let_def split: option.splits list.splits)

lemma db_prefix_ok:
  assumes "\<forall>j<5. db_script E (length (db_log s) + j) = None"
    and "db_log s1 = db_log s"
  shows "create_connection E p s1 = (Return p, s1\<lparr>db_log := db_log s @ [Connect p]\<rparr>)"
    and "create_summonerID_table E p (s1\<lparr>db_log := db_log s @ [Connect p]\<rparr>) =
           (Return ''summonerID'',
            s1\<lparr>db_log := db_log s @ [Connect p, Cursor, Execute create_table_statement,
                                       Commit, Close]\<rparr>)"
proof -
  from assms(1) have ok: "db_script E (length (db_log s)) = None"
    "db_script E (Suc (length (db_log s))) = None"
    "db_script E (Suc (Suc (length (db_log s)))) = None"
    "db_script E (Suc (Suc (Suc (length (db_log s))))) = None"
    "db_script E (Suc (Suc (Suc (Suc (length (db_log s)))))) = None"
    using assms(1) [rule_format, of 0] assms(1) [rule_format, of 1]
      assms(1) [rule_format, of 2] assms(1) [rule_format, of 3] assms(1) [rule_format, of 4]
    by (simp_all add: numeral_eq_Suc)
  show "create_connection E p s1 = (Return p, s1\<lparr>db_log := db_log s @ [Connect p]\<rparr>)"
    using ok assms(2) by (simp add: create_connection_def db_call_def)
  show "create_summonerID_table E p (s1\<lparr>db_log := db_log s @ [Connect p]\<rparr>) =
           (Return ''summonerID'',
            s1\<lparr>db_log := db_log s @ [Connect p, Cursor, Execute create_table_statement,
                                       Commit, Close]\<rparr>)"
    using ok by (simp add: create_summonerID_table_def db_call_def)
qed

lemma insert_into_table_five_columns:
  assumes "\<forall>j<5. db_script E (length (db_log s) + j) = None"
    and "rows \<noteq> []" and "length (hd rows) = 5"
  shows "insert_into_table E p t rows s =
           (Return (),
            s\<lparr>db_log := db_log s @ [Connect p, Cursor,
                 ExecuteMany (''INSERT INTO '' @ t @ '' VALUES(?, ?, ?, ?, ?)'') rows,
                 Commit, Close]\<rparr>)"
proof -
  from assms(1) have ok: "db_script E (length (db_log s)) = None"
    "db_script E (Suc (length (db_log s))) = None"
    "db_script E (Suc (Suc (length (db_log s)))) = None"
    "db_script E (Suc (Suc (Suc (length (db_log s))))) = None"
    "db_script E (Suc (Suc (Suc (Suc (length (db_log s)))))) = None"
    using assms(1) [rule_format, of 0] assms(1) [rule_format, of 1]
      assms(1) [rule_format, of 2] assms(1) [rule_format, of 3] assms(1) [rule_format, of 4]
    by (simp_all add: numeral_eq_Suc)
  from assms(2,3) obtain row0 rest where r: "rows = row0 # rest" "length row0 = 5"
    by (cases rows) auto
  show ?thesis
    using ok by (simp add: insert_into_table_def db_call_def r numeral_eq_Suc)
qed

subsection \<open>What a lookup and the loop change\<close>

lemma get_id_summoner_frame:
  "get_id_summoner E stack sid key region s = (r, s') \<Longrightarrow>
     length (requests s) \<le> length (requests s') \<and> db_log s' = db_log s \<and>
     REQUESTS_COUNTER s' =
       REQUESTS_COUNTER s + int (successful_lookups E (length (requests s)) (length (requests s')))
     \<and> (r \<noteq> Raise JSONDecodeError \<longrightarrow>
          status_200_lookups E (length (requests s)) (length (requests s')) =
          successful_lookups E (length (requests s)) (length (requests s')))"
proof (induction stack arbitrary: s r s')
  case 0
  then show ?case by auto
next
  case (Suc stack)
  show ?case
  proof (cases "create_puuid_url sid region")
    case (Inl e)
    with Suc.prems show ?thesis by auto
  next
    case (Inr u)
    let ?s1 = "s\<lparr>requests := requests s @ [\<lparr>url = u, req_headers = [(''X-Riot-Token'', key)]\<rparr>]\<rparr>"
    have len1: "length (requests ?s1) = Suc (length (requests s))" by simp
    show ?thesis
    proof (cases "http_script E (length (requests s))")
      case ConnectionError
      with Suc.prems Inr show ?thesis
        by (auto simp: requests_get_def successful_lookups_first answered_200_def
            status_200_lookups_first status_200_def)
    next
      case (Response resp)
      show ?thesis
      proof (cases "status_code resp = 429")
        case False
        with Suc.prems Inr Response show ?thesis
          by (auto simp: requests_get_def successful_lookups_first answered_200_def Let_def
              status_200_lookups_first status_200_def
              split: option.splits sum.splits if_splits dest: py_getitem_error)
      next
        case True
        note is429 = True
        have not200: "\<not> answered_200 E (length (requests s))"
          "\<not> status_200 E (length (requests s))"
          using Response True by (simp_all add: answered_200_def status_200_def)
        show ?thesis
        proof (cases "\<exists>v n m. headers resp ''Retry-After'' = Some v \<and> py_int v = Inr n
            \<and> format_int (n + 1) = Inr m \<and> 0 \<le> n + 1 \<and> n + 1 \<le> 9223372036")
          case False
          with Suc.prems Inr Response is429 not200 show ?thesis
            by (auto simp: requests_get_def successful_lookups_first time_sleep_def Let_def
                status_200_lookups_first split: option.splits sum.splits if_splits)
        next
          case True
          then obtain v n m where v: "headers resp ''Retry-After'' = Some v"
            "py_int v = Inr n" "format_int (n + 1) = Inr m" "0 \<le> n + 1"
            "n + 1 \<le> 9223372036" by blast
          let ?s2 = "?s1\<lparr>sleeps := sleeps ?s1 @ [n + 1]\<rparr>"
          from Suc.prems Inr Response is429 v
          have rec: "get_id_summoner E stack sid key region ?s2 = (r, s')"
            by (simp add: requests_get_def time_sleep_def Let_def)
          from Suc.IH [OF rec]
          have ih: "Suc (length (requests s)) \<le> length (requests s')" "db_log s' = db_log s"
            "REQUESTS_COUNTER s' = REQUESTS_COUNTER s
               + int (successful_lookups E (Suc (length (requests s))) (length (requests s')))"
            "r \<noteq> Raise JSONDecodeError \<longrightarrow>
               status_200_lookups E (Suc (length (requests s))) (length (requests s')) =
               successful_lookups E (Suc (length (requests s))) (length (requests s'))"
            by simp_all
          from ih(1) have "length (requests s) < length (requests s')" by simp
          from successful_lookups_first [OF this, of E] status_200_lookups_first [OF this, of E]
            not200 ih show ?thesis by simp
        qed
      qed
    qed
  qed
qed

lemma get_id_summoner_requests_prefix:
  "get_id_summoner E stack sid key region s = (r, s') \<Longrightarrow>
     take (length (requests s)) (requests s') = requests s"
proof (induction stack arbitrary: s r s')
  case 0
  then show ?case by auto
next
  case (Suc stack)
  show ?case
  proof (cases "create_puuid_url sid region")
    case (Inl e)
    with Suc.prems show ?thesis by auto
  next
    case (Inr u)
    let ?s1 = "s\<lparr>requests := requests s @ [\<lparr>url = u, req_headers = [(''X-Riot-Token'', key)]\<rparr>]\<rparr>"
    show ?thesis
    proof (cases "\<exists>resp v n m. http_script E (length (requests s)) = Response resp
        \<and> status_code resp = 429
        \<and> headers resp ''Retry-After'' = Some v \<and> py_int v = Inr n
            \<and> format_int (n + 1) = Inr m \<and> 0 \<le> n + 1 \<and> n + 1 \<le> 9223372036")
      case False
      with Suc.prems Inr show ?thesis
        by (auto simp: requests_get_def time_sleep_def Let_def
            split: http_outcome.splits option.splits sum.splits if_splits)
    next
      case True
      then obtain resp v n m where v: "http_script E (length (requests s)) = Response resp"
        "status_code resp = 429" "headers resp ''Retry-After'' = Some v"
        "py_int v = Inr n" "format_int (n + 1) = Inr m" "0 \<le> n + 1"
            "n + 1 \<le> 9223372036" by blast
      let ?s2 = "?s1\<lparr>sleeps := sleeps ?s1 @ [n + 1]\<rparr>"
      from Suc.prems Inr v
      have rec: "get_id_summoner E stack sid key region ?s2 = (r, s')"
        by (simp add: requests_get_def time_sleep_def Let_def)
      from Suc.IH [OF rec]
      have "take (Suc (length (requests s))) (requests s') = requests ?s1" by simp
      then have "take (length (requests s)) (take (Suc (length (requests s))) (requests s'))
                   = take (length (requests s)) (requests ?s1)" by simp
      then show ?thesis by (simp add: min_def)
    qed
  qed
qed

lemma resolve_accounts_frame:
  "resolve_accounts E stack key region accounts acc s = (r, s') \<Longrightarrow>
     length (requests s) \<le> length (requests s') \<and> db_log s' = db_log s \<and>
     REQUESTS_COUNTER s' =
       REQUESTS_COUNTER s + int (successful_lookups E (length (requests s)) (length (requests s')))
     \<and> (r \<noteq> Raise JSONDecodeError \<longrightarrow>
          status_200_lookups E (length (requests s)) (length (requests s')) =
          successful_lookups E (length (requests s)) (length (requests s')))"
proof (induction accounts arbitrary: acc s r s')
  case Nil
  then show ?case by auto
next
  case (Cons account rest)
  show ?case
  proof (cases "\<exists>sid name. py_getitem account ''summonerId'' = Inr sid
                  \<and> py_getitem account ''summonerName'' = Inr name")
    case False
    with Cons.prems show ?thesis
      by (auto split: sum.splits dest: py_getitem_error)
  next
    case True
    then obtain sid name where f: "py_getitem account ''summonerId'' = Inr sid"
      "py_getitem account ''summonerName'' = Inr name" by blast
    obtain r1 s1 where g: "get_id_summoner E stack sid key region s = (r1, s1)"
      by (cases "get_id_summoner E stack sid key region s")
    note fr1 = get_id_summoner_frame [OF g]
    show ?thesis
    proof (cases r1)
      case (Return pa)
      obtain puuid account_id where pa: "pa = (puuid, account_id)" by (cases pa)
      from Cons.prems f g Return pa
      have rec: "resolve_accounts E stack key region rest
                   (acc @ [[puuid, sid, account_id, name, JStr region]]) s1 = (r, s')"
        by simp
      note fr2 = Cons.IH [OF rec]
      from fr1 fr2 Return
        successful_lookups_split [of "length (requests s)" "length (requests s1)"
          "length (requests s')" E]
        status_200_lookups_split [of "length (requests s)" "length (requests s1)"
          "length (requests s')" E]
      show ?thesis by auto
    next
      case (Raise e)
      with Cons.prems f g fr1 show ?thesis by auto
    qed
  qed
qed

lemma resolve_accounts_requests_prefix:
  "resolve_accounts E stack key region accounts acc s = (r, s') \<Longrightarrow>
     take (length (requests s)) (requests s') = requests s"
proof (induction accounts arbitrary: acc s r s')
  case Nil
  then show ?case by auto
next
  case (Cons account rest)
  show ?case
  proof (cases "\<exists>sid name. py_getitem account ''summonerId'' = Inr sid
                  \<and> py_getitem account ''summonerName'' = Inr name")
    case False
    with Cons.prems show ?thesis by (auto split: sum.splits)
  next
    case True
    then obtain sid name where f: "py_getitem account ''summonerId'' = Inr sid"
      "py_getitem account ''summonerName'' = Inr name" by blast
    obtain r1 s1 where g: "get_id_summoner E stack sid key region s = (r1, s1)"
      by (cases "get_id_summoner E stack sid key region s")
    note p1 = get_id_summoner_requests_prefix [OF g]
    have le: "length (requests s) \<le> length (requests s1)"
      using get_id_summoner_frame [OF g] by simp
    show ?thesis
    proof (cases r1)
      case (Return pa)
      obtain puuid account_id where pa: "pa = (puuid, account_id)" by (cases pa)
      from Cons.prems f g Return pa
      have rec: "resolve_accounts E stack key region rest
                   (acc @ [[puuid, sid, account_id, name, JStr region]]) s1 = (r, s')"
        by simp
      from Cons.IH [OF rec]
      have "take (length (requests s)) (take (length (requests s1)) (requests s'))
              = take (length (requests s)) (requests s1)" by simp
      with le p1 show ?thesis by (simp add: min_def)
    next
      case (Raise e)
      with Cons.prems f g p1 show ?thesis by auto
    qed
  qed
qed

lemma create_summoner_to_id_table_frame:
  assumes run: "create_summoner_to_id_table E stack key p region tier s = (r, s')"
  shows "REQUESTS_COUNTER s' =
           REQUESTS_COUNTER s
           + int (successful_lookups E (Suc (length (requests s))) (length (requests s')))
         \<and> (r \<noteq> Raise JSONDecodeError \<longrightarrow>
              status_200_lookups E (Suc (length (requests s))) (length (requests s')) =
              successful_lookups E (Suc (length (requests s))) (length (requests s')))"
proof (cases "create_tier_url region tier")
  case (Inl e)
  with run show ?thesis by (auto simp: create_summoner_to_id_table_def)
next
  case (Inr u)
  let ?s1 = "s\<lparr>requests := requests s @ [\<lparr>url = u, req_headers = [(''X-Riot-Token'', key)]\<rparr>]\<rparr>"
  show ?thesis
  proof (cases "\<exists>resp d accounts_data. http_script E (length (requests s)) = Response resp
           \<and> status_code resp = 200 \<and> json_body resp = Some d
           \<and> py_getitem d ''entries'' = Inr accounts_data")
    case False
    with run Inr show ?thesis
      by (auto simp: create_summoner_to_id_table_def requests_get_def
          split: http_outcome.splits if_splits option.splits sum.splits dest: py_getitem_error)
  next
    case True
    then obtain resp d accounts_data where
      l: "http_script E (length (requests s)) = Response resp" "status_code resp = 200"
         "json_body resp = Some d" "py_getitem d ''entries'' = Inr accounts_data"
      by blast
    obtain r2 s2 where c2: "create_connection E p ?s1 = (r2, s2)"
      by (cases "create_connection E p ?s1")
    note f2 = create_connection_frame [OF c2]
    show ?thesis
    proof (cases "\<exists>u. r2 = Return u")
      case False
      with run Inr l c2 f2 show ?thesis
        by (auto simp: create_summoner_to_id_table_def requests_get_def
            split: res.splits error.splits)
    next
      case True
      then obtain c where r2: "r2 = Return c" by auto
      obtain r3 s3 where c3: "create_summonerID_table E c s2 = (r3, s3)"
        by (cases "create_summonerID_table E c s2")
      note f3 = create_summonerID_table_frame [OF c3]
      show ?thesis
      proof (cases "\<exists>t accounts. r3 = Return t \<and> py_iter accounts_data = Inr accounts")
        case False
        with run Inr l c2 f2 r2 c3 f3 show ?thesis
          by (cases r3; cases "py_iter accounts_data")
            (auto simp: create_summoner_to_id_table_def requests_get_def py_iter_def
              split: json.splits)
      next
        case True
        then obtain t accounts where r3: "r3 = Return t"
          and it: "py_iter accounts_data = Inr accounts" by blast
        obtain r4 s4 where c4: "resolve_accounts E stack key region accounts [] s3 = (r4, s4)"
          by (cases "resolve_accounts E stack key region accounts [] s3")
        note f4 = resolve_accounts_frame [OF c4]
        have n3: "length (requests s3) = Suc (length (requests s))"
          "REQUESTS_COUNTER s3 = REQUESTS_COUNTER s"
          using f2 f3 by simp_all
        show ?thesis
        proof (cases r4)
          case (Return rows)
          with run Inr l c2 r2 c3 r3 it c4
          have "insert_into_table E p t rows s4 = (r, s')"
            by (simp add: create_summoner_to_id_table_def requests_get_def)
          from insert_into_table_frame [OF this] f4 n3 Return show ?thesis by simp
        next
          case (Raise e)
          with run Inr l c2 r2 c3 r3 it c4
          have "r = Raise e" "s' = s4"
            by (simp_all add: create_summoner_to_id_table_def requests_get_def)
          with f4 n3 Raise show ?thesis by simp
        qed
      qed
    qed
  qed
qed

lemma create_summoner_to_id_table_listing_first:
  assumes run: "create_summoner_to_id_table E stack key p region tier s = (r, s')"
    and Inr: "create_tier_url region tier = Inr u"
  shows "take (Suc (length (requests s))) (requests s') =
           requests s @ [\<lparr>url = u, req_headers = [(''X-Riot-Token'', key)]\<rparr>]"
proof -
  let ?s1 = "s\<lparr>requests := requests s @ [\<lparr>url = u, req_headers = [(''X-Riot-Token'', key)]\<rparr>]\<rparr>"
  show ?thesis
  proof (cases "\<exists>resp d accounts_data. http_script E (length (requests s)) = Response resp
           \<and> status_code resp = 200 \<and> json_body resp = Some d
           \<and> py_getitem d ''entries'' = Inr accounts_data")
    case False
    with run Inr show ?thesis
      by (auto simp: create_summoner_to_id_table_def requests_get_def
          split: http_outcome.splits if_splits option.splits sum.splits)
  next
    case True
    then obtain resp d accounts_data where
      l: "http_script E (length (requests s)) = Response resp" "status_code resp = 200"
         "json_body resp = Some d" "py_getitem d ''entries'' = Inr accounts_data"
      by blast
    obtain r2 s2 where c2: "create_connection E p ?s1 = (r2, s2)"
      by (cases "create_connection E p ?s1")
    note f2 = create_connection_frame [OF c2]
    show ?thesis
    proof (cases "\<exists>u. r2 = Return u")
      case False
      with run Inr l c2 f2 show ?thesis
        by (auto simp: create_summoner_to_id_table_def requests_get_def
            split: res.splits error.splits)
    next
      case True
      then obtain c where r2: "r2 = Return c" by auto
      obtain r3 s3 where c3: "create_summonerID_table E c s2 = (r3, s3)"
        by (cases "create_summonerID_table E c s2")
      note f3 = create_summonerID_table_frame [OF c3]
      show ?thesis
      proof (cases "\<exists>t accounts. r3 = Return t \<and> py_iter accounts_data = Inr accounts")
        case False
        with run Inr l c2 f2 r2 c3 f3 show ?thesis
          by (cases r3; cases "py_iter accounts_data")
            (auto simp: create_summoner_to_id_table_def requests_get_def py_iter_def
              split: json.splits)
      next
        case True
        then obtain t accounts where r3: "r3 = Return t"
          and it: "py_iter accounts_data = Inr accounts" by blast
        obtain r4 s4 where c4: "resolve_accounts E stack key region accounts [] s3 = (r4, s4)"
          by (cases "resolve_accounts E stack key region accounts [] s3")
        have n3: "requests s3 = requests ?s1" using f2 f3 by simp
        from resolve_accounts_requests_prefix [OF c4] n3
        have p4: "take (Suc (length (requests s))) (requests s4) = requests ?s1" by simp
        have "requests s' = requests s4"
        proof (cases r4)
          case (Return rows)
          with run Inr l c2 r2 c3 r3 it c4
          have "insert_into_table E p t rows s4 = (r, s')"
            by (simp add: create_summoner_to_id_table_def requests_get_def)
          from insert_into_table_frame [OF this] show ?thesis by simp
        next
          case (Raise e)
          with run Inr l c2 r2 c3 r3 it c4 show ?thesis
            by (simp add: create_summoner_to_id_table_def requests_get_def)
        qed
        with p4 show ?thesis by simp
      qed
    qed
  qed
qed

subsection \<open>Lookups step by step\<close>

lemma get_id_summoner_200:
  assumes "region_to_url region = Inr base"
    and "body_200 E (length (requests s)) = Some body"
    and "py_getitem body ''puuid'' = Inr puuid"
    and "py_getitem body ''accountId'' = Inr accountId"
  shows "get_id_summoner E (Suc stack) sid key region s =
           (Return (puuid, accountId),
            s\<lparr>requests := requests s @ [lookup_request base key sid],
              REQUESTS_COUNTER := REQUESTS_COUNTER s + 1\<rparr>)"
  using assms
  by (auto simp: create_puuid_url_ok requests_get_def body_200_def lookup_request_def Let_def
      split: http_outcome.splits if_splits)

lemma get_id_summoner_429:
  assumes "region_to_url region = Inr base"
    and "retry_after E (length (requests s)) = Some d"
    and "0 \<le> d + 1" and "d + 1 \<le> 9223372036"
  shows "get_id_summoner E (Suc stack) sid key region s =
           get_id_summoner E stack sid key region
             (s\<lparr>requests := requests s @ [lookup_request base key sid],
                sleeps := sleeps s @ [d + 1]\<rparr>)"
proof -
  have "format_int (d + 1) = Inr (show_int (d + 1))"
    using assms(3,4) by (intro format_int_small) simp
  with assms show ?thesis
    by (auto simp: create_puuid_url_ok requests_get_def retry_after_def lookup_request_def
        time_sleep_def Let_def split: http_outcome.splits if_splits option.splits sum.splits)
qed

lemma get_id_summoner_retry_example:
  "get_id_summoner retry_env 3 (JStr ''s1'') ''KEY'' ''NA'' init_state =
     (Return (JStr ''p1'', JStr ''a1''),
      \<lparr>requests =
         [\<lparr>url = ''https://na1.api.riotgames.com/lol/summoner/v4/summoners/s1'',
           req_headers = [(''X-Riot-Token'', ''KEY'')]\<rparr>,
          \<lparr>url = ''https://na1.api.riotgames.com/lol/summoner/v4/summoners/s1'',
           req_headers = [(''X-Riot-Token'', ''KEY'')]\<rparr>,
          \<lparr>url = ''https://na1.api.riotgames.com/lol/summoner/v4/summoners/s1'',
           req_headers = [(''X-Riot-Token'', ''KEY'')]\<rparr>],
       sleeps = [3, 1], db_log = [], REQUESTS_COUNTER = 1\<rparr>)
   \<and> fst (get_id_summoner retry_env 2 (JStr ''s1'') ''KEY'' ''NA'' init_state)
       = Raise RecursionError"
  by (simp add: numeral_3_eq_3 numeral_2_eq_2 create_puuid_url_def url_defs requests_get_def
      retry_env_def rate_limited_response_def ok_response_def summoner_dto_def init_state_def
      py_int_defs format_int_defs time_sleep_def py_str_def py_getitem_def)

lemma player_record_shape:
  "player_record region account body = Some row \<Longrightarrow> length row = 5 \<and> row ! 4 = JStr region"
  by (auto simp: player_record_def split: sum.splits)

lemma resolve_accounts_ok:
  assumes "region_to_url region = Inr base" and "0 < stack"
    and "length rows = length accounts"
    and "\<forall>i<length accounts. \<exists>body. body_200 E (length (requests s) + i) = Some body
            \<and> player_record region (accounts ! i) body = Some (rows ! i)"
  shows "resolve_accounts E stack key region accounts acc s =
           (Return (acc @ rows),
            s\<lparr>requests := requests s
                 @ map (\<lambda>a. lookup_request base key (summonerId_of a)) accounts,
              REQUESTS_COUNTER := REQUESTS_COUNTER s + int (length accounts)\<rparr>)"
  using assms(3,4)
proof (induction accounts arbitrary: rows acc s)
  case Nil
  then show ?case by simp
next
  case (Cons account rest)
  from Cons.prems(1) obtain row rows' where rows: "rows = row # rows'"
    and len: "length rows' = length rest"
    by (cases rows) auto
  from Cons.prems(2) have "\<exists>body. body_200 E (length (requests s) + 0) = Some body
      \<and> player_record region ((account # rest) ! 0) body = Some (rows ! 0)"
    by blast
  then obtain body where b: "body_200 E (length (requests s)) = Some body"
    and pr: "player_record region account body = Some row"
    using rows by auto
  from pr obtain puuid sid accountId name where
    f: "py_getitem body ''puuid'' = Inr puuid" "py_getitem account ''summonerId'' = Inr sid"
       "py_getitem body ''accountId'' = Inr accountId"
       "py_getitem account ''summonerName'' = Inr name"
    and row: "row = [puuid, sid, accountId, name, JStr region]"
    by (auto simp: player_record_def split: sum.splits)
  obtain stack' where stack: "stack = Suc stack'"
    using assms(2) by (cases stack) auto
  let ?s1 = "s\<lparr>requests := requests s @ [lookup_request base key sid],
               REQUESTS_COUNTER := REQUESTS_COUNTER s + 1\<rparr>"
  have g: "get_id_summoner E stack sid key region s = (Return (puuid, accountId), ?s1)"
    unfolding stack by (rule get_id_summoner_200 [OF assms(1) b f(1) f(3)])
  have rest: "\<forall>i<length rest. \<exists>body. body_200 E (length (requests ?s1) + i) = Some body
            \<and> player_record region (rest ! i) body = Some (rows' ! i)"
  proof (intro allI impI)
    fix i assume "i < length rest"
    then have "Suc i < length (account # rest)" by simp
    with Cons.prems(2) have "\<exists>body. body_200 E (length (requests s) + Suc i) = Some body
            \<and> player_record region ((account # rest) ! Suc i) body = Some (rows ! Suc i)"
      by blast
    then show "\<exists>body. body_200 E (length (requests ?s1) + i) = Some body
            \<and> player_record region (rest ! i) body = Some (rows' ! i)"
      using rows by simp
  qed
  have sid: "summonerId_of account = sid" by (simp add: summonerId_of_def f)
  show ?case
    using Cons.IH [OF len rest, of "acc @ [row]"] f g
    by (simp add: rows row sid)
qed

section \<open>Properties of the URL builders\<close>

text \<open>
  C3 (as amended). \<open>region_dict\<close> enumerates fifteen region codes, not fourteen:
  \<open>region_to_url\<close> returns a non-empty base endpoint exactly for these fifteen codes and
  raises \<open>ValueError("The region is invalid")\<close> (the spec's InvalidRegion) for every other
  string.
\<close>

theorem region_to_url_fifteen_codes:
  "((\<exists>u. region_to_url region = Inr u \<and> u \<noteq> []) \<longleftrightarrow>
      region \<in> {''NA'', ''EUW'', ''EUN'', ''BR'', ''JP'', ''KR'', ''LA'', ''OC'', ''TR'',
                 ''RU'', ''PH'', ''SG'', ''TH'', ''TW'', ''VN''})
   \<and> (region \<notin> {''NA'', ''EUW'', ''EUN'', ''BR'', ''JP'', ''KR'', ''LA'', ''OC'', ''TR'',
                 ''RU'', ''PH'', ''SG'', ''TH'', ''TW'', ''VN''}
        \<longrightarrow> region_to_url region = Inl (ValueError ''The region is invalid''))
   \<and> card {''NA'', ''EUW'', ''EUN'', ''BR'', ''JP'', ''KR'', ''LA'', ''OC'', ''TR'',
            ''RU'', ''PH'', ''SG'', ''TH'', ''TW'', ''VN''} = (15::nat)"
  by (simp add: region_to_url_def region_dict_def)

theorem region_to_url_fifteen_codes_witness:
  "region_to_url ''VN'' = Inr ''https://vn2.api.riotgames.com''
   \<and> region_to_url ''na'' = Inl (ValueError ''The region is invalid'')"
  using region_to_url_fifteen_codes [of "''VN''"] region_to_url_fifteen_codes [of "''na''"]
  by (simp add: region_to_url_def region_dict_def)

text \<open>
  C3 (as stated) fails: fifteen pairwise distinct codes are accepted, so no set of
  fourteen codes is the set of accepted regions.
\<close>

theorem region_to_url_fourteen_counterexample:
  "map region_to_url
     [''NA'', ''EUW'', ''EUN'', ''BR'', ''JP'', ''KR'', ''LA'', ''OC'', ''TR'',
      ''RU'', ''PH'', ''SG'', ''TH'', ''TW'', ''VN'']
   = [Inr ''https://na1.api.riotgames.com'', Inr ''https://euw1.api.riotgames.com'',
      Inr ''https://eun1.api.riotgames.com'', Inr ''https://br1.api.riotgames.com'',
      Inr ''https://jp1.api.riotgames.com'', Inr ''https://kr.api.riotgames.com'',
      Inr ''https://la1.api.riotgames.com'', Inr ''https://oc1.api.riotgames.com'',
      Inr ''https://tr1.api.riotgames.com'', Inr ''https://ru.api.riotgames.com'',
      Inr ''https://ph2.api.riotgames.com'', Inr ''https://sg2.api.riotgames.com'',
      Inr ''https://th2.api.riotgames.com'', Inr ''https://tw2.api.riotgames.com'',
      Inr ''https://vn2.api.riotgames.com'']
   \<and> card (set [''NA'', ''EUW'', ''EUN'', ''BR'', ''JP'', ''KR'', ''LA'', ''OC'', ''TR'',
                 ''RU'', ''PH'', ''SG'', ''TH'', ''TW'', ''VN'']) = (15::nat)"
  by (simp add: region_to_url_def region_dict_def)

text \<open>
  C5 (as amended). The division is validated before the tier. For a tier whose
  lower-cased form is not one of the nine tier names, \<open>tier_to_url\<close> raises
  \<open>ValueError("Tier is invalid")\<close> (InvalidTier) for every page and every valid division
  code (\<open>""\<close>, \<open>"1"\<close>, \<open>"2"\<close>, \<open>"3"\<close>, \<open>"4"\<close>); for any other division it raises
  \<open>ValueError("Division is invalid")\<close> (InvalidDivision) instead.
\<close>

theorem tier_to_url_invalid_tier:
  assumes "str_lower tier \<notin> set tier_set"
  shows "tier_to_url tier division page =
           (if division \<in> {'''', ''1'', ''2'', ''3'', ''4''}
            then Inl (ValueError ''Tier is invalid'')
            else Inl (ValueError ''Division is invalid''))"
  using assms by (simp add: tier_to_url_def Let_def map_of_division_dict)

theorem tier_to_url_invalid_tier_witness:
  "str_lower ''Wood'' \<notin> set tier_set
   \<and> tier_to_url ''Wood'' ''2'' ''1'' = Inl (ValueError ''Tier is invalid'')
   \<and> tier_to_url ''Wood'' ''5'' ''1'' = Inl (ValueError ''Division is invalid'')"
proof -
  have h: "str_lower ''Wood'' \<notin> set tier_set"
    by (simp add: str_lower_def lower_char_def tier_set_def)
  show ?thesis
    using h tier_to_url_invalid_tier [OF h, of "''2''" "''1''"]
      tier_to_url_invalid_tier [OF h, of "''5''" "''1''"]
    by simp
qed

text \<open>
  C5 (as stated) fails: with the invalid tier \<open>"wood"\<close> and the invalid division \<open>"5"\<close>
  the error is the division's, not InvalidTier.
\<close>

theorem tier_to_url_invalid_tier_counterexample:
  "str_lower ''wood'' \<notin> set tier_set
   \<and> tier_to_url ''wood'' ''5'' ''1'' \<noteq> Inl (ValueError ''Tier is invalid'')
   \<and> tier_to_url ''wood'' ''5'' ''1'' = Inl (ValueError ''Division is invalid'')"
  by (simp add: tier_to_url_def Let_def map_of_division_dict str_lower_def lower_char_def
      tier_set_def)

text \<open>
  C6. The base URL of region \<open>"NA"\<close> followed by the listing path for tier \<open>"gold"\<close>,
  division \<open>"2"\<close>, page \<open>"3"\<close> is exactly
  \<open>https://na1.api.riotgames.com/lol/league/v4/entries/RANKED_SOLO_5x5/gold/II?page=3\<close>.
\<close>

theorem gold_II_page_3_url:
  "(case (region_to_url ''NA'', tier_to_url ''gold'' ''2'' ''3'') of
      (Inr region_url, Inr tier_url) \<Rightarrow> Some (region_url @ tier_url)
    | _ \<Rightarrow> None)
   = Some ''https://na1.api.riotgames.com/lol/league/v4/entries/RANKED_SOLO_5x5/gold/II?page=3''"
  by (simp add: region_to_url_def region_dict_def tier_to_url_def Let_def map_of_division_dict
      str_lower_def lower_char_def tier_set_def)

text \<open>
  C7. \<open>create_tier_url("KR", "Challenger")\<close> is exactly
  \<open>https://kr.api.riotgames.com/lol/league/v4/challengerleagues/by-queue/RANKED_SOLO_5x5\<close>:
  the tier is lower-cased, and the path has neither division nor page.
\<close>

theorem create_tier_url_KR_Challenger:
  "create_tier_url ''KR'' ''Challenger'' =
     Inr ''https://kr.api.riotgames.com/lol/league/v4/challengerleagues/by-queue/RANKED_SOLO_5x5''"
  by (simp add: create_tier_url_def region_to_url_def region_dict_def tier_to_url_def Let_def
      map_of_division_dict str_lower_def lower_char_def tier_set_def)

text \<open>
  C8. For a tier whose lower-cased form is \<open>"master"\<close>, \<open>"grandmaster"\<close> or
  \<open>"challenger"\<close>, and a division code among \<open>"1"\<close>, \<open>"2"\<close>, \<open>"3"\<close>, \<open>"4"\<close>,
  \<open>tier_to_url\<close> raises \<open>ValueError("You cannot have tier <tier> with a division")\<close>
  (TierDivisionConflict), for every page.
\<close>

theorem tier_to_url_top_tier_with_division:
  assumes "str_lower tier \<in> {''master'', ''grandmaster'', ''challenger''}"
    and "division \<in> {''1'', ''2'', ''3'', ''4''}"
  shows "tier_to_url tier division page =
           Inl (ValueError (''You cannot have tier '' @ str_lower tier @ '' with a division''))"
  using assms by (auto simp add: tier_to_url_def Let_def map_of_division_dict tier_set_def)

theorem tier_to_url_top_tier_with_division_witness:
  "str_lower ''GrandMaster'' \<in> {''master'', ''grandmaster'', ''challenger''}
   \<and> ''4'' \<in> {''1'', ''2'', ''3'', ''4''}
   \<and> tier_to_url ''GrandMaster'' ''4'' ''1'' =
       Inl (ValueError ''You cannot have tier grandmaster with a division'')"
proof -
  have h1: "str_lower ''GrandMaster'' \<in> {''master'', ''grandmaster'', ''challenger''}"
    by (simp add: str_lower_def lower_char_def)
  have h2: "''4'' \<in> {''1'', ''2'', ''3'', ''4''}" by simp
  have e: "str_lower ''GrandMaster'' = ''grandmaster''"
    by (simp add: str_lower_def lower_char_def)
  show ?thesis
    using h1 h2 tier_to_url_top_tier_with_division [OF h1 h2, of "''1''"]
    by (simp add: e)
qed

section \<open>Properties of the orchestrator and the fetcher\<close>

text \<open>
  C1. Let the region and tier be valid, the listing be answered with status 200 and a
  body whose \<open>entries\<close> field is a list of \<open>N\<close> entries, the table be created without
  error, and the \<open>i\<close>-th lookup be answered with status 200 and a body that, with the
  \<open>i\<close>-th entry, determines the PlayerRecord \<open>rows ! i\<close>. Then
  \<open>create_summoner_to_id_table\<close> hands exactly these \<open>N\<close> records, in listing order, to
  \<open>insert_into_table\<close>; each has five fields and the configured region as its last; and
  the run issues exactly \<open>N + 1\<close> GETs, the listing followed by one lookup per entry. When
  moreover \<open>N > 0\<close> and the database accepts the insert, the run returns and the batch
  bound by \<open>executemany\<close> is these records.
\<close>

theorem create_summoner_to_id_table_resolves_listing:
  assumes "region_to_url region = Inr base" and "tier_to_url tier '''' ''1'' = Inr path"
    and "0 < stack"
    and "body_200 E (length (requests s)) = Some listing"
    and "py_getitem listing ''entries'' = Inr (JList entries)"
    and "\<forall>j<5. db_script E (length (db_log s) + j) = None"
    and "length rows = length entries"
    and "\<forall>i<length entries. \<exists>body.
           body_200 E (length (requests s) + 1 + i) = Some body
           \<and> player_record region (entries ! i) body = Some (rows ! i)"
  shows "create_summoner_to_id_table E stack API_KEY PATH_DB region tier s =
           insert_into_table E PATH_DB ''summonerID'' rows
             (s\<lparr>requests := requests s
                   @ \<lparr>url = base @ path, req_headers = [(''X-Riot-Token'', API_KEY)]\<rparr>
                   # map (\<lambda>a. lookup_request base API_KEY (summonerId_of a)) entries,
                db_log := db_log s @ [Connect PATH_DB, Cursor, Execute create_table_statement,
                                      Commit, Close],
                REQUESTS_COUNTER := REQUESTS_COUNTER s + int (length entries)\<rparr>)
         \<and> length (requests (snd (create_summoner_to_id_table E stack API_KEY PATH_DB region tier s)))
             = length (requests s) + 1 + length entries
         \<and> (\<forall>row\<in>set rows. length row = 5 \<and> row ! 4 = JStr region)
         \<and> (rows \<noteq> [] \<and> (\<forall>j<5. db_script E (length (db_log s) + 5 + j) = None) \<longrightarrow>
              fst (create_summoner_to_id_table E stack API_KEY PATH_DB region tier s) = Return ()
              \<and> db_log (snd (create_summoner_to_id_table E stack API_KEY PATH_DB region tier s)) =
                  db_log s @ [Connect PATH_DB, Cursor, Execute create_table_statement, Commit, Close,
                    Connect PATH_DB, Cursor,
                    ExecuteMany ''INSERT INTO summonerID VALUES(?, ?, ?, ?, ?)'' rows,
                    Commit, Close])"
proof -
  let ?listing = "\<lparr>url = base @ path, req_headers = [(''X-Riot-Token'', API_KEY)]\<rparr>"
  let ?s1 = "s\<lparr>requests := requests s @ [?listing]\<rparr>"
  let ?s2 = "?s1\<lparr>db_log := db_log s @ [Connect PATH_DB]\<rparr>"
  let ?s3 = "?s1\<lparr>db_log := db_log s @ [Connect PATH_DB, Cursor,
                Execute create_table_statement, Commit, Close]\<rparr>"
  let ?s4 = "s\<lparr>requests := requests s
                   @ ?listing # map (\<lambda>a. lookup_request base API_KEY (summonerId_of a)) entries,
                db_log := db_log s @ [Connect PATH_DB, Cursor, Execute create_table_statement,
                                      Commit, Close],
                REQUESTS_COUNTER := REQUESTS_COUNTER s + int (length entries)\<rparr>"
  let ?run = "create_summoner_to_id_table E stack API_KEY PATH_DB region tier s"
  have u: "create_tier_url region tier = Inr (base @ path)"
    using assms(1,2) by (simp add: create_tier_url_def)
  from assms(4) obtain r0 where r0: "http_script E (length (requests s)) = Response r0"
    "status_code r0 = 200" "json_body r0 = Some listing"
    by (auto simp: body_200_def split: http_outcome.splits if_splits)
  have c: "create_connection E PATH_DB ?s1 = (Return PATH_DB, ?s2)"
    and t: "create_summonerID_table E PATH_DB ?s2 = (Return ''summonerID'', ?s3)"
    using db_prefix_ok [OF assms(6), of ?s1 PATH_DB] by simp_all
  have lookups: "\<forall>i<length entries. \<exists>body.
           body_200 E (length (requests ?s3) + i) = Some body
           \<and> player_record region (entries ! i) body = Some (rows ! i)"
    using assms(8) by simp
  have loop: "resolve_accounts E stack API_KEY region entries [] ?s3 = (Return rows, ?s4)"
    using resolve_accounts_ok [OF assms(1) assms(3) assms(7) lookups, of API_KEY "[]"]
    by simp
  have run: "?run = insert_into_table E PATH_DB ''summonerID'' rows ?s4"
    using u r0 assms(5) c t loop
    by (simp add: create_summoner_to_id_table_def requests_get_def py_iter_def)
  obtain r s' where ins: "insert_into_table E PATH_DB ''summonerID'' rows ?s4 = (r, s')"
    by (cases "insert_into_table E PATH_DB ''summonerID'' rows ?s4")
  have count: "length (requests (snd ?run)) = length (requests s) + 1 + length entries"
    using insert_into_table_frame [OF ins] run ins by simp
  have shape: "\<forall>row\<in>set rows. length row = 5 \<and> row ! 4 = JStr region"
  proof
    fix row assume "row \<in> set rows"
    then obtain i where i: "i < length rows" "rows ! i = row"
      by (auto simp: in_set_conv_nth)
    with assms(7,8) obtain body where "player_record region (entries ! i) body = Some row"
      by auto
    then show "length row = 5 \<and> row ! 4 = JStr region" by (rule player_record_shape)
  qed
  have stored: "fst ?run = Return () \<and> db_log (snd ?run) =
                  db_log s @ [Connect PATH_DB, Cursor, Execute create_table_statement, Commit, Close,
                    Connect PATH_DB, Cursor,
                    ExecuteMany ''INSERT INTO summonerID VALUES(?, ?, ?, ?, ?)'' rows,
                    Commit, Close]"
    if ne: "rows \<noteq> []" and db: "\<forall>j<5. db_script E (length (db_log s) + 5 + j) = None"
  proof -
    from ne shape have five: "length (hd rows) = 5" by (cases rows) auto
    have "length (db_log ?s4) = length (db_log s) + 5" by simp
    with db have db': "\<forall>j<5. db_script E (length (db_log ?s4) + j) = None"
      by (simp only:)
    from insert_into_table_five_columns [OF db' ne five, of PATH_DB "''summonerID''"] run
    show ?thesis by simp
  qed
  from run count shape stored show ?thesis by blast
qed

theorem create_summoner_to_id_table_resolves_listing_witness:
  "fst (create_summoner_to_id_table three_entries_env 1 ''KEY'' ''db/data.db'' ''NA'' ''Master''
         init_state) = Return ()
   \<and> length (requests (snd (create_summoner_to_id_table three_entries_env 1 ''KEY'' ''db/data.db''
         ''NA'' ''Master'' init_state))) = 4
   \<and> db_log (snd (create_summoner_to_id_table three_entries_env 1 ''KEY'' ''db/data.db''
         ''NA'' ''Master'' init_state)) =
       [Connect ''db/data.db'', Cursor, Execute create_table_statement, Commit, Close,
        Connect ''db/data.db'', Cursor,
        ExecuteMany ''INSERT INTO summonerID VALUES(?, ?, ?, ?, ?)'' three_records,
        Commit, Close]"
proof -
  have h1: "region_to_url ''NA'' = Inr ''https://na1.api.riotgames.com''"
    by (simp add: url_defs)
  have h2: "tier_to_url ''Master'' '''' ''1'' =
              Inr ''/lol/league/v4/masterleagues/by-queue/RANKED_SOLO_5x5''"
    by (simp add: url_defs)
  have h3: "0 < (1::nat)" by simp
  have h4: "body_200 three_entries_env (length (requests init_state)) =
              Some (JObj [(''tier'', JStr ''MASTER''), (''entries'', JList three_entries)])"
    by (simp add: body_200_def init_state_def ok_response_def three_entries_env_def)
  have h5: "py_getitem (JObj [(''tier'', JStr ''MASTER''), (''entries'', JList three_entries)])
              ''entries'' = Inr (JList three_entries)"
    by (simp add: py_getitem_def)
  have h6: "\<forall>j<5. db_script three_entries_env (length (db_log init_state) + j) = None"
    by (simp add: init_state_def three_entries_env_def three_entries_def ladder_entry_def
        three_records_def)
  have h7: "length three_records = length three_entries"
    by (simp add: init_state_def three_entries_env_def three_entries_def ladder_entry_def
        three_records_def)
  have h8: "\<forall>i<length three_entries. \<exists>body.
           body_200 three_entries_env (length (requests init_state) + 1 + i) = Some body
           \<and> player_record ''NA'' (three_entries ! i) body = Some (three_records ! i)"
    by (simp add: init_state_def ok_response_def ladder_entry_def summoner_dto_def
        three_entries_def three_entries_env_def three_records_def body_200_def player_record_def py_getitem_def All_less_Suc)
  have ne: "three_records \<noteq> [] \<and>
      (\<forall>j<5. db_script three_entries_env (length (db_log init_state) + 5 + j) = None)"
    by (simp add: init_state_def three_entries_env_def three_entries_def ladder_entry_def
        three_records_def)
  note run = create_summoner_to_id_table_resolves_listing [OF h1 h2 h3 h4 h5 h6 h7 h8,
      of "''KEY''" "''db/data.db''"]
  note count = run [THEN conjunct2, THEN conjunct1]
  note stored = run [THEN conjunct2, THEN conjunct2, THEN conjunct2, THEN mp, OF ne]
  from count stored show ?thesis by (simp add: init_state_def three_entries_def)
qed

text \<open>
  C2. The claim fails on the ladder-listing fetch. \<open>create_summoner_to_id_table\<close> has
  no branch for status 429, which the sibling fetch in \<open>get_id_summoner\<close> has: answered
  429 with \<open>Retry-After: 2\<close>, a header that reads as 2, the run ends in \<open>exit()\<close> after
  that single request, without sleeping and without a second request.
\<close>

theorem listing_fetch_exits_on_429:
  "retry_after retry_env (length (requests init_state)) = Some 2
   \<and> create_summoner_to_id_table retry_env 900 ''KEY'' ''db/data.db'' ''NA'' ''Master'' init_state =
       (Raise SystemExit,
        \<lparr>requests =
          [\<lparr>url = ''https://na1.api.riotgames.com/lol/league/v4/masterleagues/by-queue/RANKED_SOLO_5x5'',
            req_headers = [(''X-Riot-Token'', ''KEY'')]\<rparr>],
         sleeps = [], db_log = [], REQUESTS_COUNTER = 0\<rparr>)"
  by (simp add: create_summoner_to_id_table_def requests_get_def url_defs retry_after_def
      retry_env_def rate_limited_response_def init_state_def py_int_defs)

text \<open>
  C4. When the listing is answered with status 200 and a body from which \<open>["entries"]\<close>
  cannot be read, \<open>create_summoner_to_id_table\<close> raises that very exception, which on a
  JSON object is \<open>KeyError("entries")\<close> (the spec's MalformedResponse). The listing is the
  only request of the run, so no lookup is made, and no database call is made, so
  nothing is inserted.
\<close>

theorem listing_without_entries:
  assumes "create_tier_url region tier = Inr listing_url"
    and "body_200 E (length (requests s)) = Some listing"
    and "py_getitem listing ''entries'' = Inl e"
  shows "create_summoner_to_id_table E stack API_KEY PATH_DB region tier s =
           (Raise e,
            s\<lparr>requests := requests s
                  @ [\<lparr>url = listing_url, req_headers = [(''X-Riot-Token'', API_KEY)]\<rparr>]\<rparr>)
         \<and> ((\<exists>kvs. listing = JObj kvs) \<longrightarrow> e = KeyError ''entries'')
         \<and> length (requests (snd (create_summoner_to_id_table E stack API_KEY PATH_DB region tier s)))
             = length (requests s) + 1
         \<and> db_log (snd (create_summoner_to_id_table E stack API_KEY PATH_DB region tier s))
             = db_log s"
proof -
  from assms(2) obtain r0 where r0: "http_script E (length (requests s)) = Response r0"
    "status_code r0 = 200" "json_body r0 = Some listing"
    by (auto simp: body_200_def split: http_outcome.splits if_splits)
  have run: "create_summoner_to_id_table E stack API_KEY PATH_DB region tier s =
           (Raise e,
            s\<lparr>requests := requests s
                  @ [\<lparr>url = listing_url, req_headers = [(''X-Riot-Token'', API_KEY)]\<rparr>]\<rparr>)"
    using assms(1,3) r0 by (simp add: create_summoner_to_id_table_def requests_get_def)
  have key: "e = KeyError ''entries''" if "\<exists>kvs. listing = JObj kvs"
    using that assms(3) by (auto simp: py_getitem_def split: option.splits)
  from run key show ?thesis by simp
qed

theorem listing_without_entries_witness:
  "create_summoner_to_id_table no_entries_env 1 ''KEY'' ''db/data.db'' ''NA'' ''Master'' init_state =
     (Raise (KeyError ''entries''),
      \<lparr>requests =
         [\<lparr>url = ''https://na1.api.riotgames.com/lol/league/v4/masterleagues/by-queue/RANKED_SOLO_5x5'',
           req_headers = [(''X-Riot-Token'', ''KEY'')]\<rparr>],
       sleeps = [], db_log = [], REQUESTS_COUNTER = 0\<rparr>)"
proof -
  have h1: "create_tier_url ''NA'' ''Master'' =
      Inr ''https://na1.api.riotgames.com/lol/league/v4/masterleagues/by-queue/RANKED_SOLO_5x5''"
    by (simp add: url_defs)
  have h2: "body_200 no_entries_env (length (requests init_state)) =
              Some (JObj [(''tier'', JStr ''MASTER'')])"
    by (simp add: body_200_def no_entries_env_def ok_response_def)
  have h3: "py_getitem (JObj [(''tier'', JStr ''MASTER'')]) ''entries'' = Inl (KeyError ''entries'')"
    by (simp add: py_getitem_def)
  from listing_without_entries [where stack = 1 and API_KEY = "''KEY''"
      and PATH_DB = "''db/data.db''", OF h1 h2 h3, THEN conjunct1]
  show ?thesis by (simp add: init_state_def)
qed

text \<open>
  C9 (as amended). \<open>REQUESTS_COUNTER\<close> starts at 0 in a fresh process. After any call
  of \<open>get_id_summoner\<close>, after the loop over any list of ladder entries, and after any
  run of \<open>create_summoner_to_id_table\<close>, whatever the outcome, it has grown by exactly
  the number of lookups answered with status 200 and a body that parsed as JSON: the
  source increments it after \<open>response.json()\<close> and before it reads \<open>puuid\<close> and
  \<open>accountId\<close>. A 429 answer, a 200 answer whose body is not JSON, and the listing fetch
  (the first request of a run) add nothing. Unless the run died of a 200 answer whose
  body is not JSON, that is the number of lookups answered with status 200.
\<close>

theorem REQUESTS_COUNTER_counts_successful_lookups:
  "REQUESTS_COUNTER (snd (get_id_summoner E stack summonerId API_KEY region s)) =
     REQUESTS_COUNTER s
     + int (successful_lookups E (length (requests s))
             (length (requests (snd (get_id_summoner E stack summonerId API_KEY region s)))))
   \<and> REQUESTS_COUNTER (snd (resolve_accounts E stack API_KEY region accounts formatted_data s)) =
       REQUESTS_COUNTER s
       + int (successful_lookups E (length (requests s))
               (length (requests (snd (resolve_accounts E stack API_KEY region accounts
                  formatted_data s)))))
   \<and> REQUESTS_COUNTER (snd (create_summoner_to_id_table E stack API_KEY PATH_DB region tier s)) =
       REQUESTS_COUNTER s
       + int (successful_lookups E (Suc (length (requests s)))
               (length (requests (snd (create_summoner_to_id_table E stack API_KEY PATH_DB region
                  tier s)))))
   \<and> (fst (create_summoner_to_id_table E stack API_KEY PATH_DB region tier s)
         \<noteq> Raise JSONDecodeError \<longrightarrow>
       successful_lookups E (Suc (length (requests s)))
         (length (requests (snd (create_summoner_to_id_table E stack API_KEY PATH_DB region tier s))))
       = status_200_lookups E (Suc (length (requests s)))
         (length (requests (snd (create_summoner_to_id_table E stack API_KEY PATH_DB region tier s)))))
   \<and> (create_tier_url region tier = Inr listing_url \<longrightarrow>
       take (Suc (length (requests s)))
         (requests (snd (create_summoner_to_id_table E stack API_KEY PATH_DB region tier s)))
       = requests s @ [\<lparr>url = listing_url, req_headers = [(''X-Riot-Token'', API_KEY)]\<rparr>])"
proof -
  obtain r1 s1 where g: "get_id_summoner E stack summonerId API_KEY region s = (r1, s1)"
    by (cases "get_id_summoner E stack summonerId API_KEY region s")
  obtain r2 s2 where l: "resolve_accounts E stack API_KEY region accounts formatted_data s = (r2, s2)"
    by (cases "resolve_accounts E stack API_KEY region accounts formatted_data s")
  obtain r s' where run: "create_summoner_to_id_table E stack API_KEY PATH_DB region tier s = (r, s')"
    by (cases "create_summoner_to_id_table E stack API_KEY PATH_DB region tier s")
  from get_id_summoner_frame [OF g] resolve_accounts_frame [OF l]
    create_summoner_to_id_table_frame [OF run] create_summoner_to_id_table_listing_first [OF run]
  show ?thesis by (simp add: g l run)
qed

theorem REQUESTS_COUNTER_counts_successful_lookups_witness:
  "create_summoner_to_id_table rate_limited_lookup_env 2 ''KEY'' ''db/data.db'' ''NA'' ''Master''
     init_state =
     (Return (),
      \<lparr>requests =
         [\<lparr>url = ''https://na1.api.riotgames.com/lol/league/v4/masterleagues/by-queue/RANKED_SOLO_5x5'',
           req_headers = [(''X-Riot-Token'', ''KEY'')]\<rparr>,
          \<lparr>url = ''https://na1.api.riotgames.com/lol/summoner/v4/summoners/s1'',
           req_headers = [(''X-Riot-Token'', ''KEY'')]\<rparr>,
          \<lparr>url = ''https://na1.api.riotgames.com/lol/summoner/v4/summoners/s1'',
           req_headers = [(''X-Riot-Token'', ''KEY'')]\<rparr>],
       sleeps = [3],
       db_log =
         [Connect ''db/data.db'', Cursor, Execute create_table_statement, Commit, Close,
          Connect ''db/data.db'', Cursor,
          ExecuteMany ''INSERT INTO summonerID VALUES(?, ?, ?, ?, ?)''
            [[JStr ''p1'', JStr ''s1'', JStr ''a1'', JStr ''Ann'', JStr ''NA'']],
          Commit, Close],
       REQUESTS_COUNTER = 1\<rparr>)
   \<and> successful_lookups rate_limited_lookup_env 1 3 = 1
   \<and> status_200_lookups rate_limited_lookup_env 1 3 = 1"
proof -
  let ?run = "create_summoner_to_id_table rate_limited_lookup_env 2 ''KEY'' ''db/data.db'' ''NA''
                ''Master'' init_state"
  have run: "?run =
     (Return (),
      \<lparr>requests =
         [\<lparr>url = ''https://na1.api.riotgames.com/lol/league/v4/masterleagues/by-queue/RANKED_SOLO_5x5'',
           req_headers = [(''X-Riot-Token'', ''KEY'')]\<rparr>,
          \<lparr>url = ''https://na1.api.riotgames.com/lol/summoner/v4/summoners/s1'',
           req_headers = [(''X-Riot-Token'', ''KEY'')]\<rparr>,
          \<lparr>url = ''https://na1.api.riotgames.com/lol/summoner/v4/summoners/s1'',
           req_headers = [(''X-Riot-Token'', ''KEY'')]\<rparr>],
       sleeps = [3],
       db_log =
         [Connect ''db/data.db'', Cursor, Execute create_table_statement, Commit, Close,
          Connect ''db/data.db'', Cursor,
          ExecuteMany ''INSERT INTO summonerID VALUES(?, ?, ?, ?, ?)''
            [[JStr ''p1'', JStr ''s1'', JStr ''a1'', JStr ''Ann'', JStr ''NA'']],
          Commit, Close],
       REQUESTS_COUNTER = 1\<rparr>)"
    by (simp add: create_summoner_to_id_table_def requests_get_def url_defs
        rate_limited_lookup_env_def rate_limited_response_def init_state_def ok_response_def
        ladder_entry_def summoner_dto_def py_getitem_def
        create_connection_def db_call_def create_summonerID_table_def py_iter_def
        create_puuid_url_def py_str_def time_sleep_def py_int_defs format_int_defs
        insert_into_table_def
        numeral_2_eq_2)
  have n: "length (requests (snd ?run)) = 3" by (simp add: run)
  note t = REQUESTS_COUNTER_counts_successful_lookups [where E = rate_limited_lookup_env
      and stack = 2 and API_KEY = "''KEY''" and PATH_DB = "''db/data.db''" and region = "''NA''"
      and tier = "''Master''" and s = init_state]
  have c: "successful_lookups rate_limited_lookup_env 1 3 = 1"
    using t [THEN conjunct2, THEN conjunct2, THEN conjunct1] unfolding run
    by (simp add: init_state_def numeral_3_eq_3)
  have d: "status_200_lookups rate_limited_lookup_env 1 3 = 1"
    using t [THEN conjunct2, THEN conjunct2, THEN conjunct2, THEN conjunct1] c unfolding run
    by (simp add: init_state_def numeral_3_eq_3)
  from run c d show ?thesis by blast
qed

text \<open>
  C9 (as stated) fails: when the one lookup of a run is answered with status 200 and a
  body that is not JSON, one lookup has been answered with status 200 and the counter
  is still 0.
\<close>

theorem status_200_without_json_counterexample:
  "create_summoner_to_id_table non_json_lookup_env 1 ''KEY'' ''db/data.db'' ''NA'' ''Master''
     init_state =
     (Raise JSONDecodeError,
      \<lparr>requests =
         [\<lparr>url = ''https://na1.api.riotgames.com/lol/league/v4/masterleagues/by-queue/RANKED_SOLO_5x5'',
           req_headers = [(''X-Riot-Token'', ''KEY'')]\<rparr>,
          \<lparr>url = ''https://na1.api.riotgames.com/lol/summoner/v4/summoners/s1'',
           req_headers = [(''X-Riot-Token'', ''KEY'')]\<rparr>],
       sleeps = [],
       db_log = [Connect ''db/data.db'', Cursor, Execute create_table_statement, Commit, Close],
       REQUESTS_COUNTER = 0\<rparr>)
   \<and> status_200_lookups non_json_lookup_env 1 2 = 1"
proof -
  have "[1..<2] = [1::nat]" by (simp add: upt_rec)
  then have "status_200_lookups non_json_lookup_env 1 2 = 1"
    by (simp add: status_200_lookups_def status_200_def non_json_lookup_env_def)
  then show ?thesis
    by (simp add: create_summoner_to_id_table_def requests_get_def url_defs
        non_json_lookup_env_def init_state_def ok_response_def ladder_entry_def py_getitem_def
        create_connection_def db_call_def create_summonerID_table_def py_iter_def
        create_puuid_url_def py_str_def)
qed

text \<open>
  C10. Called with an empty list, \<open>insert_into_table\<close> opens the connection and then
  raises \<open>IndexError\<close> at \<open>data[0]\<close> (or exits when the connection fails); it never
  reaches \<open>executemany\<close>. So a run whose listing has an empty \<open>entries\<close> list never
  returns normally, and ends in that \<open>IndexError\<close> when the database calls succeed.
\<close>

theorem insert_into_table_empty_data:
  "insert_into_table E path_to_db table_name [] s =
     (if db_script E (length (db_log s)) = None then Raise IndexError else Raise SystemExit,
      s\<lparr>db_log := db_log s @ [Connect path_to_db]\<rparr>)
   \<and> (create_tier_url region tier = Inr listing_url
        \<and> body_200 E (length (requests s)) = Some listing
        \<and> py_getitem listing ''entries'' = Inr (JList []) \<longrightarrow>
       fst (create_summoner_to_id_table E stack API_KEY PATH_DB region tier s) \<noteq> Return ()
       \<and> ((\<forall>j<6. db_script E (length (db_log s) + j) = None) \<longrightarrow>
            create_summoner_to_id_table E stack API_KEY PATH_DB region tier s =
              (Raise IndexError,
               s\<lparr>requests := requests s
                     @ [\<lparr>url = listing_url, req_headers = [(''X-Riot-Token'', API_KEY)]\<rparr>],
                  db_log := db_log s @ [Connect PATH_DB, Cursor, Execute create_table_statement,
                                        Commit, Close, Connect PATH_DB]\<rparr>)))"
proof -
  have ins: "insert_into_table E p t [] s0 =
     (if db_script E (length (db_log s0)) = None then Raise IndexError else Raise SystemExit,
      s0\<lparr>db_log := db_log s0 @ [Connect p]\<rparr>)" for p t s0
    by (auto simp: insert_into_table_def db_call_def split: option.splits)
  have fails: "fst (create_summoner_to_id_table E stack API_KEY PATH_DB region tier s) \<noteq> Return ()"
    if "create_tier_url region tier = Inr listing_url"
      and b: "body_200 E (length (requests s)) = Some listing"
      and "py_getitem listing ''entries'' = Inr (JList [])"
  proof -
    from b obtain r0 where r0: "http_script E (length (requests s)) = Response r0"
      "status_code r0 = 200" "json_body r0 = Some listing"
      by (auto simp: body_200_def split: http_outcome.splits if_splits)
    show ?thesis
      using that(1,3) r0
      by (auto simp: create_summoner_to_id_table_def requests_get_def py_iter_def ins
          split: prod.splits res.splits error.splits)
  qed
  have index: "create_summoner_to_id_table E stack API_KEY PATH_DB region tier s =
              (Raise IndexError,
               s\<lparr>requests := requests s
                     @ [\<lparr>url = listing_url, req_headers = [(''X-Riot-Token'', API_KEY)]\<rparr>],
                  db_log := db_log s @ [Connect PATH_DB, Cursor, Execute create_table_statement,
                                        Commit, Close, Connect PATH_DB]\<rparr>)"
    if u: "create_tier_url region tier = Inr listing_url"
      and b: "body_200 E (length (requests s)) = Some listing"
      and en: "py_getitem listing ''entries'' = Inr (JList [])"
      and db: "\<forall>j<6. db_script E (length (db_log s) + j) = None"
  proof -
    let ?s1 = "s\<lparr>requests := requests s
                  @ [\<lparr>url = listing_url, req_headers = [(''X-Riot-Token'', API_KEY)]\<rparr>]\<rparr>"
    from b obtain r0 where r0: "http_script E (length (requests s)) = Response r0"
      "status_code r0 = 200" "json_body r0 = Some listing"
      by (auto simp: body_200_def split: http_outcome.splits if_splits)
    from db have db5: "\<forall>j<5. db_script E (length (db_log s) + j) = None" by simp
    from db [rule_format, of 5]
    have db6: "db_script E (Suc (Suc (Suc (Suc (Suc (length (db_log s))))))) = None"
      by (simp add: numeral_eq_Suc)
    note c = db_prefix_ok [OF db5, of ?s1 PATH_DB, simplified]
    show ?thesis
      using u r0 en c db6
      by (simp add: create_summoner_to_id_table_def requests_get_def py_iter_def ins)
  qed
  from ins fails index show ?thesis by blast
qed

theorem insert_into_table_empty_data_witness:
  "insert_into_table empty_listing_env ''db/data.db'' ''summonerID'' [] init_state =
     (Raise IndexError, init_state\<lparr>db_log := [Connect ''db/data.db'']\<rparr>)
   \<and> create_summoner_to_id_table empty_listing_env 1 ''KEY'' ''db/data.db'' ''NA'' ''Master''
       init_state =
       (Raise IndexError,
        \<lparr>requests =
           [\<lparr>url = ''https://na1.api.riotgames.com/lol/league/v4/masterleagues/by-queue/RANKED_SOLO_5x5'',
             req_headers = [(''X-Riot-Token'', ''KEY'')]\<rparr>],
         sleeps = [],
         db_log = [Connect ''db/data.db'', Cursor, Execute create_table_statement, Commit, Close,
                   Connect ''db/data.db''],
         REQUESTS_COUNTER = 0\<rparr>)"
proof -
  have h: "create_tier_url ''NA'' ''Master'' =
      Inr ''https://na1.api.riotgames.com/lol/league/v4/masterleagues/by-queue/RANKED_SOLO_5x5''
    \<and> body_200 empty_listing_env (length (requests init_state)) =
        Some (JObj [(''entries'', JList [])])
    \<and> py_getitem (JObj [(''entries'', JList [])]) ''entries'' = Inr (JList [])"
    by (simp add: url_defs body_200_def empty_listing_env_def ok_response_def py_getitem_def)
  have db: "\<forall>j<6. db_script empty_listing_env (length (db_log init_state) + j) = None"
    by (simp add: empty_listing_env_def)
  note t = insert_into_table_empty_data [where E = empty_listing_env and s = init_state
      and path_to_db = "''db/data.db''" and table_name = "''summonerID''"
      and stack = 1 and API_KEY = "''KEY''" and PATH_DB = "''db/data.db''"]
  have a: "insert_into_table empty_listing_env ''db/data.db'' ''summonerID'' [] init_state =
     (Raise IndexError, init_state\<lparr>db_log := [Connect ''db/data.db'']\<rparr>)"
    using t [THEN conjunct1] by (simp add: empty_listing_env_def init_state_def)
  from t [THEN conjunct2, THEN mp, OF h, THEN conjunct2, THEN mp, OF db] a
  show ?thesis by (simp add: init_state_def)
qed

end
